theory Spec2Isabelle
  imports Complex_Main
begin

section \<open>Values of the source language\<close>

text \<open>
  The client page (\<^verbatim>\<open>src/app/page.jsx\<close>) works on the objects that
  \<^verbatim>\<open>res.json()\<close> returns. A number is modelled as an exact real, extended by the
  three special values that a division by zero produces; rounding and overflow of the
  binary64 format and the sign of zero are not modelled (a zero is the positive zero).
\<close>

datatype jsnum = NaN | PosInf | NegInf | Fin real

datatype jsval =
    Undefined
  | Null
  | Bool bool
  | Num jsnum
  | Str string
  | Arr "jsval list"
  | Obj "(string \<times> jsval) list"

datatype error = TypeError | NotNumeric

text \<open>
  \<open>TypeError\<close> is what reading a property of \<^verbatim>\<open>null\<close> or \<^verbatim>\<open>undefined\<close> throws.
  \<open>NotNumeric\<close> marks the edge of the model: an operand of the calculator's arithmetic
  that is not a finite number (the source would coerce it, which is not modelled).
\<close>

fun nullish :: "jsval \<Rightarrow> bool" where
  "nullish Undefined = True"
| "nullish Null = True"
| "nullish _ = False"

fun truthy :: "jsval \<Rightarrow> bool" where
  "truthy Undefined = False"
| "truthy Null = False"
| "truthy (Bool b) = b"
| "truthy (Num NaN) = False"
| "truthy (Num (Fin x)) = (x \<noteq> 0)"
| "truthy (Num _) = True"
| "truthy (Str s) = (s \<noteq> [])"
| "truthy (Arr _) = True"
| "truthy (Obj _) = True"

text \<open>\<^verbatim>\<open>a ?? b\<close> and \<^verbatim>\<open>a || b\<close>.\<close>

definition js_nc :: "jsval \<Rightarrow> jsval \<Rightarrow> jsval" where
  "js_nc a b = (if nullish a then b else a)"

definition js_or :: "jsval \<Rightarrow> jsval \<Rightarrow> jsval" where
  "js_or a b = (if truthy a then a else b)"

text \<open>
  \<^verbatim>\<open>x.k\<close> on a value that is neither \<^verbatim>\<open>null\<close> nor \<^verbatim>\<open>undefined\<close>: the field of an
  object (its key list is meant to have distinct keys), \<^verbatim>\<open>undefined\<close> when the key is
  missing or the value is a primitive or an array (none of the keys the page reads is
  a built-in property). \<^verbatim>\<open>x?.k\<close> is \<open>js_optget\<close>.
\<close>

fun js_get :: "jsval \<Rightarrow> string \<Rightarrow> jsval" where
  "js_get (Obj kvs) k = (case map_of kvs k of None \<Rightarrow> Undefined | Some v \<Rightarrow> v)"
| "js_get _ k = Undefined"

definition js_optget :: "jsval \<Rightarrow> string \<Rightarrow> jsval" where
  "js_optget x k = (if nullish x then Undefined else js_get x k)"

subsection \<open>Arithmetic on numbers\<close>

fun js_neg :: "jsnum \<Rightarrow> jsnum" where
  "js_neg NaN = NaN"
| "js_neg PosInf = NegInf"
| "js_neg NegInf = PosInf"
| "js_neg (Fin a) = Fin (- a)"

fun js_add :: "jsnum \<Rightarrow> jsnum \<Rightarrow> jsnum" where
  "js_add NaN _ = NaN"
| "js_add _ NaN = NaN"
| "js_add PosInf NegInf = NaN"
| "js_add NegInf PosInf = NaN"
| "js_add PosInf _ = PosInf"
| "js_add NegInf _ = NegInf"
| "js_add _ PosInf = PosInf"
| "js_add _ NegInf = NegInf"
| "js_add (Fin a) (Fin b) = Fin (a + b)"

definition js_sub :: "jsnum \<Rightarrow> jsnum \<Rightarrow> jsnum" where
  "js_sub a b = js_add a (js_neg b)"

fun js_mul :: "jsnum \<Rightarrow> jsnum \<Rightarrow> jsnum" where
  "js_mul NaN _ = NaN"
| "js_mul _ NaN = NaN"
| "js_mul PosInf PosInf = PosInf"
| "js_mul PosInf NegInf = NegInf"
| "js_mul NegInf PosInf = NegInf"
| "js_mul NegInf NegInf = PosInf"
| "js_mul PosInf (Fin b) = (if b = 0 then NaN else if 0 < b then PosInf else NegInf)"
| "js_mul NegInf (Fin b) = (if b = 0 then NaN else if 0 < b then NegInf else PosInf)"
| "js_mul (Fin a) PosInf = (if a = 0 then NaN else if 0 < a then PosInf else NegInf)"
| "js_mul (Fin a) NegInf = (if a = 0 then NaN else if 0 < a then NegInf else PosInf)"
| "js_mul (Fin a) (Fin b) = Fin (a * b)"

fun js_div :: "jsnum \<Rightarrow> jsnum \<Rightarrow> jsnum" where
  "js_div NaN _ = NaN"
| "js_div _ NaN = NaN"
| "js_div (Fin a) (Fin b) =
     (if b = 0 then (if a = 0 then NaN else if 0 < a then PosInf else NegInf)
      else Fin (a / b))"
| "js_div (Fin a) _ = Fin 0"
| "js_div PosInf (Fin b) = (if 0 \<le> b then PosInf else NegInf)"
| "js_div NegInf (Fin b) = (if 0 \<le> b then NegInf else PosInf)"
| "js_div _ _ = NaN"

text \<open>
  \<^verbatim>\<open>Math.pow(b, e)\<close> for a finite base and an integer exponent: 1 for the exponent 0,
  infinite for a zero base and a negative exponent, the power otherwise.
\<close>

definition js_pow :: "real \<Rightarrow> int \<Rightarrow> jsnum" where
  "js_pow b e =
     (if e = 0 then Fin 1
      else if b = 0 \<and> e < 0 then PosInf
      else if 0 \<le> e then Fin (b ^ nat e)
      else Fin (1 / b ^ nat (- e)))"

section \<open>The defaulting step\<close>

text \<open>
  \<^verbatim>\<open>withDefaults(x)\<close> of \<^verbatim>\<open>src/app/page.jsx\<close>: a new object with the fifteen fields, each
  the input's field or its default. The spec's field names differ from the page's:
  \<^verbatim>\<open>closingCostPct\<close> is \<^verbatim>\<open>closingPct\<close>, \<^verbatim>\<open>pointsPct\<close> is \<^verbatim>\<open>pointsOnLoanPctOfPrice\<close>,
  \<^verbatim>\<open>maintenancePctOfGrossRent\<close> is \<^verbatim>\<open>maintPctOfGrossRent\<close>, \<^verbatim>\<open>managementPctOfEGI\<close> is
  \<^verbatim>\<open>mgmtPctOfEGI\<close>, \<^verbatim>\<open>utilitiesLandlordAnnual\<close> is \<^verbatim>\<open>utilsAnnualLL\<close>, \<^verbatim>\<open>otherOpExAnnual\<close> is
  \<^verbatim>\<open>otherAnnual\<close>, a unit's \<^verbatim>\<open>monthlyRent\<close> is \<^verbatim>\<open>rent\<close>, and in the financing object
  \<^verbatim>\<open>downPaymentPct\<close> is \<^verbatim>\<open>downPct\<close> and \<^verbatim>\<open>annualRatePct\<close> is \<^verbatim>\<open>rateAnnual\<close>.
\<close>

definition defaultUnits :: jsval where
  "defaultUnits = Arr [Obj [(''name'', Str ''Unit A''), (''rent'', Num (Fin 0))]]"

definition unitsOrDefault :: "jsval \<Rightarrow> jsval" where
  "unitsOrDefault u = (case u of Arr us \<Rightarrow> (if length us \<noteq> 0 then u else defaultUnits)
                                | _ \<Rightarrow> defaultUnits)"

definition withDefaults :: "jsval \<Rightarrow> error + jsval" where
  "withDefaults x =
     (if nullish x then Inl TypeError
      else Inr (Obj [
        (''address'', js_or (js_get x ''address'') (Str [])),
        (''purchasePrice'', js_nc (js_get x ''purchasePrice'') (Num (Fin 0))),
        (''closingPct'', js_nc (js_get x ''closingPct'') (Num (Fin 0.03))),
        (''pointsOnLoanPctOfPrice'', js_nc (js_get x ''pointsOnLoanPctOfPrice'') (Num (Fin 0.0075))),
        (''vacancyRate'', js_nc (js_get x ''vacancyRate'') (Num (Fin 0.05))),
        (''maintPctOfGrossRent'', js_nc (js_get x ''maintPctOfGrossRent'') (Num (Fin 0.08))),
        (''mgmtPctOfEGI'', js_nc (js_get x ''mgmtPctOfEGI'') (Num (Fin 0.08))),
        (''insuranceAnnual'', js_nc (js_get x ''insuranceAnnual'') (Num (Fin 0))),
        (''taxesAnnual'', js_nc (js_get x ''taxesAnnual'') (Num (Fin 0))),
        (''otherAnnual'', js_nc (js_get x ''otherAnnual'') (Num (Fin 0))),
        (''hoaAnnual'', js_nc (js_get x ''hoaAnnual'') (Num (Fin 0))),
        (''utilsAnnualLL'', js_nc (js_get x ''utilsAnnualLL'') (Num (Fin 0))),
        (''units'', unitsOrDefault (js_get x ''units'')),
        (''financing'', Obj [
           (''downPct'', js_nc (js_optget (js_get x ''financing'') ''downPct'') (Num (Fin 0.25))),
           (''rateAnnual'', js_nc (js_optget (js_get x ''financing'') ''rateAnnual'') (Num (Fin 0.077))),
           (''termMonths'', js_nc (js_optget (js_get x ''financing'') ''termMonths'') (Num (Fin 360)))]),
        (''comps'', js_nc (js_get x ''comps'') (Arr []))]))"

section \<open>The normalization step\<close>

text \<open>
  \<^verbatim>\<open>mapFromSchema(x)\<close> turns the response of the generation service, shaped by the
  report schema, into the object the report component is given. A function that fails
  returns the error on the left; \<open>mapE\<close> is \<^verbatim>\<open>Array.prototype.map\<close> with a callback
  that may throw.
\<close>

definition bindE :: "error + 'a \<Rightarrow> ('a \<Rightarrow> error + 'b) \<Rightarrow> error + 'b" where
  "bindE m f = (case m of Inl e \<Rightarrow> Inl e | Inr a \<Rightarrow> f a)"

fun mapE :: "('a \<Rightarrow> error + 'b) \<Rightarrow> 'a list \<Rightarrow> error + 'b list" where
  "mapE f [] = Inr []"
| "mapE f (x # xs) = bindE (f x) (\<lambda>y. bindE (mapE f xs) (\<lambda>ys. Inr (y # ys)))"

definition pctToDec :: "jsval \<Rightarrow> jsnum \<Rightarrow> jsval" where
  "pctToDec n def = (case n of Num a \<Rightarrow> Num (js_div a (Fin 100)) | _ \<Rightarrow> Num def)"

definition yearsToMonths :: "jsval \<Rightarrow> jsnum \<Rightarrow> jsval" where
  "yearsToMonths y def = (case y of Num a \<Rightarrow> Num (js_mul a (Fin 12))
                                  | _ \<Rightarrow> Num (js_mul def (Fin 12)))"

definition mapUnit :: "jsval \<Rightarrow> error + jsval" where
  "mapUnit u =
     (if nullish u then Inl TypeError
      else Inr (Obj [(''name'', js_get u ''name''),
                     (''rent'', js_nc (js_get u ''modeledRentMonthly'') (Num (Fin 0)))]))"

text \<open>
  The template literal of a comparable's \<^verbatim>\<open>beds\<close> field converts two values to strings;
  the conversion \<open>toStr\<close> is a parameter.
\<close>

definition mapComp :: "(jsval \<Rightarrow> string) \<Rightarrow> jsval \<Rightarrow> error + jsval" where
  "mapComp toStr c =
     (if nullish c then Inl TypeError
      else Inr (Obj [(''label'', js_get c ''address''),
                     (''rent'', js_nc (js_get c ''askingRent'') (Num (Fin 0))),
                     (''beds'', Str (toStr (js_get c ''beds'') @ ''/'' @ toStr (js_get c ''baths''))),
                     (''dist'', js_nc (js_get c ''distanceMiles'') (Num (Fin 0))),
                     (''condition'', js_get c ''conditionNote'')]))"

text \<open>The two \<^verbatim>\<open>const\<close> declarations of \<^verbatim>\<open>mapFromSchema\<close>, then the function.\<close>

definition mapUnits :: "jsval \<Rightarrow> error + jsval" where
  "mapUnits x =
     (case js_get x ''units'' of
        Arr us \<Rightarrow> (if length us \<noteq> 0 then bindE (mapE mapUnit us) (\<lambda>l. Inr (Arr l))
                   else Inr defaultUnits)
      | _ \<Rightarrow> Inr defaultUnits)"

definition mapComps :: "(jsval \<Rightarrow> string) \<Rightarrow> jsval \<Rightarrow> error + jsval" where
  "mapComps toStr x =
     (case js_get x ''rentComps'' of
        Arr cs \<Rightarrow> bindE (mapE (mapComp toStr) cs) (\<lambda>l. Inr (Arr l))
      | _ \<Rightarrow> Inr (Arr []))"

definition mapFromSchema :: "(jsval \<Rightarrow> string) \<Rightarrow> jsval \<Rightarrow> error + jsval" where
  "mapFromSchema toStr x =
     (if nullish x then Inl TypeError
      else
        bindE (mapUnits x) (\<lambda>units'.
        bindE (mapComps toStr x) (\<lambda>comps.
        Inr (Obj [
          (''address'', js_nc (js_optget (js_get x ''subject'') ''address'') (Str [])),
          (''purchasePrice'', js_nc (js_optget (js_get x ''purchase'') ''purchasePrice'') (Num (Fin 0))),
          (''closingPct'', js_nc (js_optget (js_get x ''purchase'') ''closingCostPct'') (Num (Fin 0.02))),
          (''pointsOnLoanPctOfPrice'', js_nc (js_optget (js_get x ''purchase'') ''pointsPct'') (Num (Fin 0))),
          (''vacancyRate'', pctToDec (js_optget (js_get x ''operatingAssumptions'') ''vacancyPct'') (Fin 0.05)),
          (''maintPctOfGrossRent'',
             pctToDec (js_optget (js_get x ''operatingAssumptions'') ''maintenancePctOfGrossRent'') (Fin 0.08)),
          (''mgmtPctOfEGI'',
             pctToDec (js_optget (js_get x ''operatingAssumptions'') ''managementPctOfEGI'') (Fin 0.08)),
          (''insuranceAnnual'',
             js_nc (js_optget (js_optget (js_get x ''propertySnapshot'') ''insurance'') ''dp3Annual'')
                   (Num (Fin 0))),
          (''taxesAnnual'',
             js_nc (js_optget (js_optget (js_get x ''propertySnapshot'') ''taxes'') ''annual'') (Num (Fin 0))),
          (''hoaAnnual'',
             js_nc (js_optget (js_optget (js_get x ''propertySnapshot'') ''hoa'') ''annual'') (Num (Fin 0))),
          (''utilsAnnualLL'',
             js_nc (js_optget (js_get x ''operatingAssumptions'') ''utilitiesLandlordPaidAnnual'')
                   (Num (Fin 0))),
          (''otherAnnual'',
             js_nc (js_optget (js_get x ''operatingAssumptions'') ''otherOpExAnnual'') (Num (Fin 0))),
          (''units'', units'),
          (''financing'', Obj [
             (''downPct'', pctToDec (js_optget (js_get x ''financing'') ''downPaymentPct'') (Fin 0.25)),
             (''rateAnnual'', pctToDec (js_optget (js_get x ''financing'') ''rateAnnualPct'') (Fin 0.077)),
             (''termMonths'', yearsToMonths (js_optget (js_get x ''financing'') ''termYears'') (Fin 30))]),
          (''comps'', comps)]))))"

section \<open>The calculator\<close>

text \<open>
  The body of \<^verbatim>\<open>Report\<close> computes on numbers. Its operands are read from the defaulted
  object into a record of reals: the calculator's domain in this model is the finite
  numbers, which is what a parsed response carries. \<^verbatim>\<open>termMonths\<close> is an integer, as in
  the spec's data model. A unit's rent is \<open>None\<close> when the field holds a falsy value
  that is not a finite number (\<^verbatim>\<open>undefined\<close>, \<^verbatim>\<open>null\<close>, \<^verbatim>\<open>false\<close>, the empty string,
  \<^verbatim>\<open>NaN\<close>), for which \<^verbatim>\<open>u.rent||0\<close> is 0.
\<close>

record unit_t =
  name :: jsval
  rent :: "real option"

record financing_t =
  downPct :: real
  rateAnnual :: real
  termMonths :: int

record inputs_t =
  purchasePrice :: real
  closingPct :: real
  pointsOnLoanPctOfPrice :: real
  vacancyRate :: real
  maintPctOfGrossRent :: real
  mgmtPctOfEGI :: real
  insuranceAnnual :: real
  taxesAnnual :: real
  otherAnnual :: real
  hoaAnnual :: real
  utilsAnnualLL :: real
  units :: "unit_t list"
  financing :: financing_t

definition readNum :: "jsval \<Rightarrow> error + real" where
  "readNum v = (case v of Num (Fin a) \<Rightarrow> Inr a | _ \<Rightarrow> Inl NotNumeric)"

definition readInt :: "jsval \<Rightarrow> error + int" where
  "readInt v = (case v of Num (Fin a) \<Rightarrow> (if of_int \<lfloor>a\<rfloor> = a then Inr \<lfloor>a\<rfloor> else Inl NotNumeric)
                        | _ \<Rightarrow> Inl NotNumeric)"

definition readUnit :: "jsval \<Rightarrow> error + unit_t" where
  "readUnit u =
     (if nullish u then Inl TypeError
      else (case js_get u ''rent'' of
              Num (Fin a) \<Rightarrow> Inr \<lparr>name = js_get u ''name'', rent = Some a\<rparr>
            | v \<Rightarrow> (if truthy v then Inl NotNumeric
                    else Inr \<lparr>name = js_get u ''name'', rent = None\<rparr>)))"

definition readUnits :: "jsval \<Rightarrow> error + unit_t list" where
  "readUnits v = (case v of Arr us \<Rightarrow> mapE readUnit us | _ \<Rightarrow> Inl TypeError)"

definition readFinancing :: "jsval \<Rightarrow> error + financing_t" where
  "readFinancing f =
     (if nullish f then Inl TypeError
      else bindE (readNum (js_get f ''downPct'')) (\<lambda>dp.
           bindE (readNum (js_get f ''rateAnnual'')) (\<lambda>ra.
           bindE (readInt (js_get f ''termMonths'')) (\<lambda>tm.
           Inr \<lparr>downPct = dp, rateAnnual = ra, termMonths = tm\<rparr>))))"

definition readInputs :: "jsval \<Rightarrow> error + inputs_t" where
  "readInputs d =
     bindE (readUnits (js_get d ''units'')) (\<lambda>us.
     bindE (readNum (js_get d ''vacancyRate'')) (\<lambda>vr.
     bindE (readNum (js_get d ''maintPctOfGrossRent'')) (\<lambda>mt.
     bindE (readNum (js_get d ''mgmtPctOfEGI'')) (\<lambda>mg.
     bindE (readNum (js_get d ''taxesAnnual'')) (\<lambda>tx.
     bindE (readNum (js_get d ''insuranceAnnual'')) (\<lambda>ins.
     bindE (readNum (js_get d ''hoaAnnual'')) (\<lambda>hoa.
     bindE (readNum (js_get d ''utilsAnnualLL'')) (\<lambda>ut.
     bindE (readNum (js_get d ''otherAnnual'')) (\<lambda>ot.
     bindE (readNum (js_get d ''purchasePrice'')) (\<lambda>pp.
     bindE (readNum (js_get d ''closingPct'')) (\<lambda>cp.
     bindE (readFinancing (js_get d ''financing'')) (\<lambda>fin.
     bindE (readNum (js_get d ''pointsOnLoanPctOfPrice'')) (\<lambda>pts.
     Inr \<lparr>purchasePrice = pp, closingPct = cp, pointsOnLoanPctOfPrice = pts,
          vacancyRate = vr, maintPctOfGrossRent = mt, mgmtPctOfEGI = mg,
          insuranceAnnual = ins, taxesAnnual = tx, otherAnnual = ot, hoaAnnual = hoa,
          utilsAnnualLL = ut, units = us, financing = fin\<rparr>)))))))))))))"

text \<open>
  The defaulted, typed input of \<^verbatim>\<open>Report\<close>: \<^verbatim>\<open>const d = withDefaults(data)\<close>.
\<close>

definition Report_d :: "jsval \<Rightarrow> error + inputs_t" where
  "Report_d data = bindE (withDefaults data) readInputs"

text \<open>The locals of \<^verbatim>\<open>Report\<close>, one definition for each \<^verbatim>\<open>const\<close>, in the source's order.\<close>

definition rentOr0 :: "unit_t \<Rightarrow> real" where
  "rentOr0 u = (case rent u of None \<Rightarrow> 0 | Some a \<Rightarrow> (if a \<noteq> 0 then a else 0))"

definition monthlyRent :: "inputs_t \<Rightarrow> real" where
  "monthlyRent d = foldl (\<lambda>s u. s + rentOr0 u) 0 (units d)"

definition annualGSR :: "inputs_t \<Rightarrow> real" where
  "annualGSR d = monthlyRent d * 12"

definition vacancy :: "inputs_t \<Rightarrow> real" where
  "vacancy d = annualGSR d * vacancyRate d"

definition egi :: "inputs_t \<Rightarrow> real" where
  "egi d = annualGSR d - vacancy d"

definition maint :: "inputs_t \<Rightarrow> real" where
  "maint d = annualGSR d * maintPctOfGrossRent d"

definition mgmt :: "inputs_t \<Rightarrow> real" where
  "mgmt d = egi d * mgmtPctOfEGI d"

definition opEx :: "inputs_t \<Rightarrow> real" where
  "opEx d = taxesAnnual d + insuranceAnnual d + hoaAnnual d + maint d + mgmt d
            + utilsAnnualLL d + otherAnnual d"

definition noi :: "inputs_t \<Rightarrow> real" where
  "noi d = egi d - opEx d"

definition closingCost :: "inputs_t \<Rightarrow> real" where
  "closingCost d = purchasePrice d * closingPct d"

definition totalCost :: "inputs_t \<Rightarrow> real" where
  "totalCost d = purchasePrice d + closingCost d"

definition loanAmount :: "inputs_t \<Rightarrow> real" where
  "loanAmount d = purchasePrice d * (1 - downPct (financing d))"

definition monthlyPI :: "inputs_t \<Rightarrow> jsnum" where
  "monthlyPI d =
     (let r = rateAnnual (financing d) / 12;
          n = termMonths (financing d)
      in js_div (Fin (loanAmount d * r)) (js_sub (Fin 1) (js_pow (1 + r) (- n))))"

definition annualDebtService :: "inputs_t \<Rightarrow> jsnum" where
  "annualDebtService d = js_mul (monthlyPI d) (Fin 12)"

definition dscr :: "inputs_t \<Rightarrow> jsnum" where
  "dscr d = js_div (Fin (noi d)) (annualDebtService d)"

definition pointsCost :: "inputs_t \<Rightarrow> real" where
  "pointsCost d = purchasePrice d * pointsOnLoanPctOfPrice d"

definition cashInvested :: "inputs_t \<Rightarrow> real" where
  "cashInvested d = purchasePrice d * downPct (financing d) + closingCost d + pointsCost d"

definition cashFlow :: "inputs_t \<Rightarrow> jsnum" where
  "cashFlow d = js_sub (Fin (noi d)) (annualDebtService d)"

definition capRate :: "inputs_t \<Rightarrow> jsnum" where
  "capRate d = js_div (Fin (noi d)) (Fin (totalCost d))"

section \<open>The report schema\<close>

text \<open>
  The repository holds two versions of the schema constant that the proxy sends to the
  generation service, both transcribed here key by key: \<^verbatim>\<open>PROPERTY_REPORT_JSON_SCHEMA\<close>
  (\<^verbatim>\<open>src/unnamed/part_000\<close>, every sub-schema written in place) and
  \<^verbatim>\<open>PROPERTY_REPORT_SCHEMA\<close> (\<^verbatim>\<open>src/unnamed/part_001\<close>, with \<^verbatim>\<open>$ref\<close> and \<^verbatim>\<open>$defs\<close>), whose
  \<^verbatim>\<open>schema\<close> field is the schema document.
\<close>

definition PROPERTY_REPORT_JSON_SCHEMA :: jsval where
  "PROPERTY_REPORT_JSON_SCHEMA = Obj [
      (''type'', Str ''object''),
      (''additionalProperties'', Bool False),
      (''required'', Arr [
        Str ''version'', Str ''reportMeta'', Str ''subject'', Str ''purchase'',
        Str ''propertySnapshot'', Str ''units'', Str ''rents'', Str ''rentComps'',
        Str ''operatingAssumptions'', Str ''financing'', Str ''totals'',
        Str ''sensitivity'', Str ''negotiation'', Str ''glossary'']),
      (''properties'', Obj [
        (''version'', Obj [(''type'', Str ''string''), (''const'', Str ''1.0'')]),
        (''reportMeta'', Obj [
          (''type'', Str ''object''),
          (''additionalProperties'', Bool False),
          (''required'', Arr [
            Str ''generatedAt'', Str ''targetCapPct'', Str ''currency'', Str ''locale'']),
          (''properties'', Obj [
            (''generatedAt'', Obj [(''type'', Str ''string''), (''format'', Str ''date-time'')]),
            (''targetCapPct'', Obj [(''type'', Str ''number''), (''minimum'', Num (Fin 0))]),
            (''currency'', Obj [(''type'', Str ''string''), (''minLength'', Num (Fin 1))]),
            (''locale'', Obj [(''type'', Str ''string''), (''minLength'', Num (Fin 2))])])]),
        (''subject'', Obj [
          (''type'', Str ''object''),
          (''additionalProperties'', Bool False),
          (''required'', Arr [Str ''address'']),
          (''properties'', Obj [
            (''address'', Obj [(''type'', Str ''string''), (''minLength'', Num (Fin 3))]),
            (''unitLabel'', Obj [(''type'', Str ''string'')]),
            (''city'', Obj [(''type'', Str ''string'')]),
            (''state'', Obj [(''type'', Str ''string'')]),
            (''zip'', Obj [(''type'', Str ''string'')]),
            (''county'', Obj [(''type'', Str ''string'')]),
            (''parcelId'', Obj [(''type'', Str ''string'')]),
            (''mlsId'', Obj [(''type'', Str ''string'')]),
            (''geo'', Obj [
              (''type'', Str ''object''),
              (''additionalProperties'', Bool False),
              (''properties'', Obj [
                (''lat'', Obj [
                  (''type'', Arr [Str ''number'', Str ''null'']),
                  (''minimum'', Num (Fin (- 90))),
                  (''maximum'', Num (Fin 90))]),
                (''lng'', Obj [
                  (''type'', Arr [Str ''number'', Str ''null'']),
                  (''minimum'', Num (Fin (- 180))),
                  (''maximum'', Num (Fin 180))])])])])]),
        (''purchase'', Obj [
          (''type'', Str ''object''),
          (''additionalProperties'', Bool False),
          (''required'', Arr [
            Str ''purchasePrice'', Str ''rehabBudget'', Str ''closingCostPct'',
            Str ''pointsPct'', Str ''totalCost'']),
          (''properties'', Obj [
            (''purchasePrice'', Obj [(''type'', Arr [Str ''number'', Str ''null'']), (''minimum'', Num (Fin 0))]),
            (''rehabBudget'', Obj [(''type'', Str ''number''), (''minimum'', Num (Fin 0))]),
            (''closingCostPct'', Obj [(''type'', Str ''number''), (''minimum'', Num (Fin 0))]),
            (''pointsPct'', Obj [(''type'', Str ''number''), (''minimum'', Num (Fin 0))]),
            (''totalCost'', Obj [(''type'', Arr [Str ''number'', Str ''null'']), (''minimum'', Num (Fin 0))])])]),
        (''propertySnapshot'', Obj [
          (''type'', Str ''object''),
          (''additionalProperties'', Bool False),
          (''required'', Arr [
            Str ''propertyType'', Str ''unitMix'', Str ''beds'', Str ''baths'',
            Str ''hoa'', Str ''taxes'', Str ''insurance'', Str ''recentUpdates'']),
          (''properties'', Obj [
            (''propertyType'', Obj [(''type'', Str ''string'')]),
            (''unitMix'', Obj [(''type'', Str ''string'')]),
            (''beds'', Obj [(''type'', Str ''number''), (''minimum'', Num (Fin 0))]),
            (''baths'', Obj [(''type'', Str ''number''), (''minimum'', Num (Fin 0))]),
            (''livingSqft'', Obj [(''type'', Arr [Str ''number'', Str ''null'']), (''minimum'', Num (Fin 0))]),
            (''yearBuilt'', Obj [
              (''type'', Arr [Str ''integer'', Str ''null'']),
              (''minimum'', Num (Fin 1800)),
              (''maximum'', Num (Fin 2100))]),
            (''lotSizeSqft'', Obj [(''type'', Arr [Str ''number'', Str ''null'']), (''minimum'', Num (Fin 0))]),
            (''hoa'', Obj [
              (''type'', Str ''object''),
              (''additionalProperties'', Bool False),
              (''required'', Arr [
                Str ''hasHoa'', Str ''annual'', Str ''monthly'', Str ''name'',
                Str ''notes'']),
              (''properties'', Obj [
                (''hasHoa'', Obj [(''type'', Str ''boolean'')]),
                (''annual'', Obj [(''type'', Str ''number''), (''minimum'', Num (Fin 0))]),
                (''monthly'', Obj [(''type'', Str ''number''), (''minimum'', Num (Fin 0))]),
                (''name'', Obj [(''type'', Str ''string'')]),
                (''notes'', Obj [(''type'', Str ''string'')])])]),
            (''taxes'', Obj [
              (''type'', Str ''object''),
              (''additionalProperties'', Bool False),
              (''required'', Arr [Str ''annual'', Str ''year'']),
              (''properties'', Obj [
                (''annual'', Obj [(''type'', Arr [Str ''number'', Str ''null'']), (''minimum'', Num (Fin 0))]),
                (''year'', Obj [
                  (''type'', Arr [Str ''integer'', Str ''null'']),
                  (''minimum'', Num (Fin 2000)),
                  (''maximum'', Num (Fin 2100))])])]),
            (''insurance'', Obj [
              (''type'', Str ''object''),
              (''additionalProperties'', Bool False),
              (''required'', Arr [Str ''dp3Annual'', Str ''notes'']),
              (''properties'', Obj [
                (''dp3Annual'', Obj [(''type'', Arr [Str ''number'', Str ''null'']), (''minimum'', Num (Fin 0))]),
                (''notes'', Obj [(''type'', Str ''string'')])])]),
            (''recentUpdates'', Obj [(''type'', Str ''array''), (''items'', Obj [(''type'', Str ''string'')])])])]),
        (''units'', Obj [
          (''type'', Str ''array''),
          (''minItems'', Num (Fin 1)),
          (''items'', Obj [
            (''type'', Str ''object''),
            (''additionalProperties'', Bool False),
            (''required'', Arr [
              Str ''name'', Str ''beds'', Str ''baths'', Str ''sqft'',
              Str ''modeledRentMonthly'', Str ''leaseTermMonths'', Str ''notes'']),
            (''properties'', Obj [
              (''name'', Obj [(''type'', Str ''string'')]),
              (''beds'', Obj [(''type'', Str ''number''), (''minimum'', Num (Fin 0))]),
              (''baths'', Obj [(''type'', Str ''number''), (''minimum'', Num (Fin 0))]),
              (''sqft'', Obj [(''type'', Arr [Str ''number'', Str ''null'']), (''minimum'', Num (Fin 0))]),
              (''modeledRentMonthly'', Obj [(''type'', Arr [Str ''number'', Str ''null'']), (''minimum'', Num (Fin 0))]),
              (''leaseTermMonths'', Obj [(''type'', Str ''integer''), (''minimum'', Num (Fin 1))]),
              (''notes'', Obj [(''type'', Str ''string'')])])])]),
        (''rents'', Obj [
          (''type'', Str ''object''),
          (''additionalProperties'', Bool False),
          (''required'', Arr [
            Str ''benchmarkMedian'', Str ''qualityAdjustmentPct'',
            Str ''modeledMarketRentMonthly'', Str ''grossScheduledRentMonthly'']),
          (''properties'', Obj [
            (''benchmarkMedian'', Obj [(''type'', Arr [Str ''number'', Str ''null'']), (''minimum'', Num (Fin 0))]),
            (''qualityAdjustmentPct'', Obj [(''type'', Str ''number'')]),
            (''modeledMarketRentMonthly'', Obj [(''type'', Arr [Str ''number'', Str ''null'']), (''minimum'', Num (Fin 0))]),
            (''grossScheduledRentMonthly'', Obj [(''type'', Arr [Str ''number'', Str ''null'']), (''minimum'', Num (Fin 0))])])]),
        (''rentComps'', Obj [
          (''type'', Str ''array''),
          (''minItems'', Num (Fin 5)),
          (''items'', Obj [
            (''type'', Str ''object''),
            (''additionalProperties'', Bool False),
            (''required'', Arr [
              Str ''address'', Str ''beds'', Str ''baths'', Str ''askingRent'',
              Str ''distanceMiles'', Str ''conditionNote'']),
            (''properties'', Obj [
              (''address'', Obj [(''type'', Str ''string''), (''minLength'', Num (Fin 3))]),
              (''beds'', Obj [(''type'', Str ''number''), (''minimum'', Num (Fin 0))]),
              (''baths'', Obj [(''type'', Str ''number''), (''minimum'', Num (Fin 0))]),
              (''askingRent'', Obj [(''type'', Arr [Str ''number'', Str ''null'']), (''minimum'', Num (Fin 0))]),
              (''distanceMiles'', Obj [(''type'', Arr [Str ''number'', Str ''null'']), (''minimum'', Num (Fin 0))]),
              (''conditionNote'', Obj [(''type'', Str ''string'')])])])]),
        (''operatingAssumptions'', Obj [
          (''type'', Str ''object''),
          (''additionalProperties'', Bool False),
          (''required'', Arr [
            Str ''vacancyPct'', Str ''maintenancePctOfGrossRent'',
            Str ''managementPctOfEGI'', Str ''selfManaged'',
            Str ''utilitiesLandlordPaidAnnual'', Str ''otherOpExAnnual'']),
          (''properties'', Obj [
            (''vacancyPct'', Obj [(''type'', Str ''number''), (''minimum'', Num (Fin 0))]),
            (''maintenancePctOfGrossRent'', Obj [(''type'', Str ''number''), (''minimum'', Num (Fin 0))]),
            (''managementPctOfEGI'', Obj [(''type'', Str ''number''), (''minimum'', Num (Fin 0))]),
            (''selfManaged'', Obj [(''type'', Str ''boolean'')]),
            (''utilitiesLandlordPaidAnnual'', Obj [(''type'', Str ''number''), (''minimum'', Num (Fin 0))]),
            (''otherOpExAnnual'', Obj [(''type'', Str ''number''), (''minimum'', Num (Fin 0))])])]),
        (''financing'', Obj [
          (''type'', Str ''object''),
          (''additionalProperties'', Bool False),
          (''required'', Arr [
            Str ''downPaymentPct'', Str ''rateAnnualPct'', Str ''termYears'',
            Str ''loanAmount'', Str ''monthlyPI'', Str ''annualDebtService'']),
          (''properties'', Obj [
            (''downPaymentPct'', Obj [(''type'', Str ''number''), (''minimum'', Num (Fin 0))]),
            (''rateAnnualPct'', Obj [(''type'', Str ''number''), (''minimum'', Num (Fin 0))]),
            (''termYears'', Obj [(''type'', Str ''integer''), (''minimum'', Num (Fin 1))]),
            (''loanAmount'', Obj [(''type'', Arr [Str ''number'', Str ''null'']), (''minimum'', Num (Fin 0))]),
            (''monthlyPI'', Obj [(''type'', Arr [Str ''number'', Str ''null'']), (''minimum'', Num (Fin 0))]),
            (''annualDebtService'', Obj [(''type'', Arr [Str ''number'', Str ''null'']), (''minimum'', Num (Fin 0))])])]),
        (''totals'', Obj [
          (''type'', Str ''object''),
          (''additionalProperties'', Bool False),
          (''required'', Arr [
            Str ''egiAnnual'', Str ''opExAnnual'', Str ''noiAnnual'', Str ''capRatePct'',
            Str ''dscr'', Str ''cashFlowAnnual'', Str ''cashOnCashRoiPct'',
            Str ''onePercentRulePct'']),
          (''properties'', Obj [
            (''egiAnnual'', Obj [(''type'', Arr [Str ''number'', Str ''null'']), (''minimum'', Num (Fin 0))]),
            (''opExAnnual'', Obj [(''type'', Arr [Str ''number'', Str ''null'']), (''minimum'', Num (Fin 0))]),
            (''noiAnnual'', Obj [(''type'', Arr [Str ''number'', Str ''null'']), (''minimum'', Num (Fin 0))]),
            (''capRatePct'', Obj [(''type'', Arr [Str ''number'', Str ''null'']), (''minimum'', Num (Fin 0))]),
            (''dscr'', Obj [(''type'', Arr [Str ''number'', Str ''null'']), (''minimum'', Num (Fin 0))]),
            (''cashFlowAnnual'', Obj [
              (''type'', Arr [Str ''number'', Str ''null'']),
              (''minimum'', Num (Fin (- 1000000000)))]),
            (''cashOnCashRoiPct'', Obj [(''type'', Arr [Str ''number'', Str ''null''])]),
            (''onePercentRulePct'', Obj [(''type'', Arr [Str ''number'', Str ''null'']), (''minimum'', Num (Fin 0))])])]),
        (''sensitivity'', Obj [
          (''type'', Str ''object''),
          (''additionalProperties'', Bool False),
          (''required'', Arr [
            Str ''rentMinus10'', Str ''baseCase'', Str ''rentPlus10'',
            Str ''opExMinus10'', Str ''opExPlus10'']),
          (''properties'', Obj [
            (''rentMinus10'', Obj [
              (''type'', Str ''object''),
              (''additionalProperties'', Bool False),
              (''required'', Arr [
                Str ''noiAnnual'', Str ''capRatePct'', Str ''dscr'',
                Str ''cashFlowAnnual'']),
              (''properties'', Obj [
                (''noiAnnual'', Obj [(''type'', Arr [Str ''number'', Str ''null''])]),
                (''capRatePct'', Obj [(''type'', Arr [Str ''number'', Str ''null''])]),
                (''dscr'', Obj [(''type'', Arr [Str ''number'', Str ''null''])]),
                (''cashFlowAnnual'', Obj [(''type'', Arr [Str ''number'', Str ''null''])])])]),
            (''baseCase'', Obj [
              (''type'', Str ''object''),
              (''additionalProperties'', Bool False),
              (''required'', Arr [
                Str ''noiAnnual'', Str ''capRatePct'', Str ''dscr'',
                Str ''cashFlowAnnual'']),
              (''properties'', Obj [
                (''noiAnnual'', Obj [(''type'', Arr [Str ''number'', Str ''null''])]),
                (''capRatePct'', Obj [(''type'', Arr [Str ''number'', Str ''null''])]),
                (''dscr'', Obj [(''type'', Arr [Str ''number'', Str ''null''])]),
                (''cashFlowAnnual'', Obj [(''type'', Arr [Str ''number'', Str ''null''])])])]),
            (''rentPlus10'', Obj [
              (''type'', Str ''object''),
              (''additionalProperties'', Bool False),
              (''required'', Arr [
                Str ''noiAnnual'', Str ''capRatePct'', Str ''dscr'',
                Str ''cashFlowAnnual'']),
              (''properties'', Obj [
                (''noiAnnual'', Obj [(''type'', Arr [Str ''number'', Str ''null''])]),
                (''capRatePct'', Obj [(''type'', Arr [Str ''number'', Str ''null''])]),
                (''dscr'', Obj [(''type'', Arr [Str ''number'', Str ''null''])]),
                (''cashFlowAnnual'', Obj [(''type'', Arr [Str ''number'', Str ''null''])])])]),
            (''opExMinus10'', Obj [
              (''type'', Str ''object''),
              (''additionalProperties'', Bool False),
              (''required'', Arr [
                Str ''noiAnnual'', Str ''capRatePct'', Str ''dscr'',
                Str ''cashFlowAnnual'']),
              (''properties'', Obj [
                (''noiAnnual'', Obj [(''type'', Arr [Str ''number'', Str ''null''])]),
                (''capRatePct'', Obj [(''type'', Arr [Str ''number'', Str ''null''])]),
                (''dscr'', Obj [(''type'', Arr [Str ''number'', Str ''null''])]),
                (''cashFlowAnnual'', Obj [(''type'', Arr [Str ''number'', Str ''null''])])])]),
            (''opExPlus10'', Obj [
              (''type'', Str ''object''),
              (''additionalProperties'', Bool False),
              (''required'', Arr [
                Str ''noiAnnual'', Str ''capRatePct'', Str ''dscr'',
                Str ''cashFlowAnnual'']),
              (''properties'', Obj [
                (''noiAnnual'', Obj [(''type'', Arr [Str ''number'', Str ''null''])]),
                (''capRatePct'', Obj [(''type'', Arr [Str ''number'', Str ''null''])]),
                (''dscr'', Obj [(''type'', Arr [Str ''number'', Str ''null''])]),
                (''cashFlowAnnual'', Obj [(''type'', Arr [Str ''number'', Str ''null''])])])])])]),
        (''negotiation'', Obj [
          (''type'', Str ''object''),
          (''additionalProperties'', Bool False),
          (''required'', Arr [
            Str ''targetCapPct'', Str ''maxPurchasePriceAtTargetCap'',
            Str ''assumptions'']),
          (''properties'', Obj [
            (''targetCapPct'', Obj [(''type'', Str ''number''), (''minimum'', Num (Fin 0))]),
            (''maxPurchasePriceAtTargetCap'', Obj [(''type'', Arr [Str ''number'', Str ''null'']), (''minimum'', Num (Fin 0))]),
            (''assumptions'', Obj [
              (''type'', Str ''object''),
              (''additionalProperties'', Bool False),
              (''required'', Arr [Str ''closingCostPct'', Str ''pointsPct'']),
              (''properties'', Obj [
                (''closingCostPct'', Obj [(''type'', Str ''number''), (''minimum'', Num (Fin 0))]),
                (''pointsPct'', Obj [(''type'', Str ''number''), (''minimum'', Num (Fin 0))])])])])]),
        (''glossary'', Obj [
          (''type'', Str ''object''),
          (''additionalProperties'', Bool False),
          (''required'', Arr [
            Str ''EGI'', Str ''OpEx'', Str ''NOI'', Str ''Cap'', Str ''DSCR'',
            Str ''CoC'']),
          (''properties'', Obj [
            (''EGI'', Obj [(''type'', Str ''string'')]),
            (''OpEx'', Obj [(''type'', Str ''string'')]),
            (''NOI'', Obj [(''type'', Str ''string'')]),
            (''Cap'', Obj [(''type'', Str ''string'')]),
            (''DSCR'', Obj [(''type'', Str ''string'')]),
            (''CoC'', Obj [(''type'', Str ''string'')])])])])]"

definition PROPERTY_REPORT_SCHEMA :: jsval where
  "PROPERTY_REPORT_SCHEMA = Obj [
      (''name'', Str ''property_investment_report_v1''),
      (''strict'', Bool False),
      (''schema'', Obj [
        (''type'', Str ''object''),
        (''additionalProperties'', Bool False),
        (''required'', Arr [
          Str ''version'', Str ''reportMeta'', Str ''subject'', Str ''purchase'',
          Str ''propertySnapshot'', Str ''units'', Str ''rents'', Str ''rentComps'',
          Str ''operatingAssumptions'', Str ''financing'', Str ''totals'',
          Str ''sensitivity'', Str ''negotiation'', Str ''glossary'']),
        (''properties'', Obj [
          (''version'', Obj [(''type'', Str ''string''), (''const'', Str ''1.0'')]),
          (''reportMeta'', Obj [
            (''type'', Str ''object''),
            (''additionalProperties'', Bool False),
            (''required'', Arr [
              Str ''generatedAt'', Str ''targetCapPct'', Str ''currency'',
              Str ''locale'']),
            (''properties'', Obj [
              (''generatedAt'', Obj [(''type'', Str ''string''), (''format'', Str ''date-time'')]),
              (''targetCapPct'', Obj [(''type'', Str ''number''), (''minimum'', Num (Fin 0))]),
              (''currency'', Obj [(''type'', Str ''string''), (''minLength'', Num (Fin 1))]),
              (''locale'', Obj [(''type'', Str ''string''), (''minLength'', Num (Fin 2))])])]),
          (''subject'', Obj [
            (''type'', Str ''object''),
            (''additionalProperties'', Bool False),
            (''required'', Arr [Str ''address'']),
            (''properties'', Obj [
              (''address'', Obj [(''type'', Str ''string''), (''minLength'', Num (Fin 3))]),
              (''unitLabel'', Obj [(''type'', Str ''string'')]),
              (''city'', Obj [(''type'', Str ''string'')]),
              (''state'', Obj [(''type'', Str ''string'')]),
              (''zip'', Obj [(''type'', Str ''string'')]),
              (''county'', Obj [(''type'', Str ''string'')]),
              (''parcelId'', Obj [(''type'', Str ''string'')]),
              (''mlsId'', Obj [(''type'', Str ''string'')]),
              (''geo'', Obj [
                (''type'', Str ''object''),
                (''additionalProperties'', Bool False),
                (''properties'', Obj [
                  (''lat'', Obj [
                    (''type'', Arr [Str ''number'', Str ''null'']),
                    (''minimum'', Num (Fin (- 90))),
                    (''maximum'', Num (Fin 90))]),
                  (''lng'', Obj [
                    (''type'', Arr [Str ''number'', Str ''null'']),
                    (''minimum'', Num (Fin (- 180))),
                    (''maximum'', Num (Fin 180))])])])])]),
          (''purchase'', Obj [
            (''type'', Str ''object''),
            (''additionalProperties'', Bool False),
            (''required'', Arr [
              Str ''purchasePrice'', Str ''rehabBudget'', Str ''closingCostPct'',
              Str ''pointsPct'', Str ''totalCost'']),
            (''properties'', Obj [
              (''purchasePrice'', Obj [(''type'', Arr [Str ''number'', Str ''null'']), (''minimum'', Num (Fin 0))]),
              (''rehabBudget'', Obj [(''type'', Str ''number''), (''minimum'', Num (Fin 0))]),
              (''closingCostPct'', Obj [(''type'', Str ''number''), (''minimum'', Num (Fin 0))]),
              (''pointsPct'', Obj [(''type'', Str ''number''), (''minimum'', Num (Fin 0))]),
              (''totalCost'', Obj [(''type'', Arr [Str ''number'', Str ''null'']), (''minimum'', Num (Fin 0))])])]),
          (''propertySnapshot'', Obj [
            (''type'', Str ''object''),
            (''additionalProperties'', Bool False),
            (''required'', Arr [
              Str ''propertyType'', Str ''unitMix'', Str ''beds'', Str ''baths'',
              Str ''hoa'', Str ''taxes'', Str ''insurance'', Str ''recentUpdates'']),
            (''properties'', Obj [
              (''propertyType'', Obj [(''type'', Str ''string'')]),
              (''unitMix'', Obj [(''type'', Str ''string'')]),
              (''beds'', Obj [(''type'', Str ''number''), (''minimum'', Num (Fin 0))]),
              (''baths'', Obj [(''type'', Str ''number''), (''minimum'', Num (Fin 0))]),
              (''livingSqft'', Obj [(''type'', Arr [Str ''number'', Str ''null'']), (''minimum'', Num (Fin 0))]),
              (''yearBuilt'', Obj [
                (''type'', Arr [Str ''integer'', Str ''null'']),
                (''minimum'', Num (Fin 1800)),
                (''maximum'', Num (Fin 2100))]),
              (''lotSizeSqft'', Obj [(''type'', Arr [Str ''number'', Str ''null'']), (''minimum'', Num (Fin 0))]),
              (''hoa'', Obj [
                (''type'', Str ''object''),
                (''additionalProperties'', Bool False),
                (''required'', Arr [
                  Str ''hasHoa'', Str ''annual'', Str ''monthly'', Str ''name'',
                  Str ''notes'']),
                (''properties'', Obj [
                  (''hasHoa'', Obj [(''type'', Str ''boolean'')]),
                  (''annual'', Obj [(''type'', Str ''number''), (''minimum'', Num (Fin 0))]),
                  (''monthly'', Obj [(''type'', Str ''number''), (''minimum'', Num (Fin 0))]),
                  (''name'', Obj [(''type'', Str ''string'')]),
                  (''notes'', Obj [(''type'', Str ''string'')])])]),
              (''taxes'', Obj [
                (''type'', Str ''object''),
                (''additionalProperties'', Bool False),
                (''required'', Arr [Str ''annual'', Str ''year'']),
                (''properties'', Obj [
                  (''annual'', Obj [
                    (''type'', Arr [Str ''number'', Str ''null'']),
                    (''minimum'', Num (Fin 0))]),
                  (''year'', Obj [
                    (''type'', Arr [Str ''integer'', Str ''null'']),
                    (''minimum'', Num (Fin 2000)),
                    (''maximum'', Num (Fin 2100))])])]),
              (''insurance'', Obj [
                (''type'', Str ''object''),
                (''additionalProperties'', Bool False),
                (''required'', Arr [Str ''dp3Annual'', Str ''notes'']),
                (''properties'', Obj [
                  (''dp3Annual'', Obj [
                    (''type'', Arr [Str ''number'', Str ''null'']),
                    (''minimum'', Num (Fin 0))]),
                  (''notes'', Obj [(''type'', Str ''string'')])])]),
              (''recentUpdates'', Obj [(''type'', Str ''array''), (''items'', Obj [(''type'', Str ''string'')])])])]),
          (''units'', Obj [
            (''type'', Str ''array''),
            (''minItems'', Num (Fin 1)),
            (''items'', Obj [(''$ref'', Str ''#/$defs/unit'')])]),
          (''rents'', Obj [
            (''type'', Str ''object''),
            (''additionalProperties'', Bool False),
            (''required'', Arr [
              Str ''benchmarkMedian'', Str ''qualityAdjustmentPct'',
              Str ''modeledMarketRentMonthly'', Str ''grossScheduledRentMonthly'']),
            (''properties'', Obj [
              (''benchmarkMedian'', Obj [(''type'', Arr [Str ''number'', Str ''null'']), (''minimum'', Num (Fin 0))]),
              (''qualityAdjustmentPct'', Obj [(''type'', Str ''number'')]),
              (''modeledMarketRentMonthly'', Obj [(''type'', Arr [Str ''number'', Str ''null'']), (''minimum'', Num (Fin 0))]),
              (''grossScheduledRentMonthly'', Obj [(''type'', Arr [Str ''number'', Str ''null'']), (''minimum'', Num (Fin 0))])])]),
          (''rentComps'', Obj [
            (''type'', Str ''array''),
            (''minItems'', Num (Fin 5)),
            (''items'', Obj [(''$ref'', Str ''#/$defs/rentComp'')])]),
          (''operatingAssumptions'', Obj [
            (''type'', Str ''object''),
            (''additionalProperties'', Bool False),
            (''required'', Arr [
              Str ''vacancyPct'', Str ''maintenancePctOfGrossRent'',
              Str ''managementPctOfEGI'', Str ''selfManaged'',
              Str ''utilitiesLandlordPaidAnnual'', Str ''otherOpExAnnual'']),
            (''properties'', Obj [
              (''vacancyPct'', Obj [(''type'', Str ''number''), (''minimum'', Num (Fin 0))]),
              (''maintenancePctOfGrossRent'', Obj [(''type'', Str ''number''), (''minimum'', Num (Fin 0))]),
              (''managementPctOfEGI'', Obj [(''type'', Str ''number''), (''minimum'', Num (Fin 0))]),
              (''selfManaged'', Obj [(''type'', Str ''boolean'')]),
              (''utilitiesLandlordPaidAnnual'', Obj [(''type'', Str ''number''), (''minimum'', Num (Fin 0))]),
              (''otherOpExAnnual'', Obj [(''type'', Str ''number''), (''minimum'', Num (Fin 0))])])]),
          (''financing'', Obj [
            (''type'', Str ''object''),
            (''additionalProperties'', Bool False),
            (''required'', Arr [
              Str ''downPaymentPct'', Str ''rateAnnualPct'', Str ''termYears'',
              Str ''loanAmount'', Str ''monthlyPI'', Str ''annualDebtService'']),
            (''properties'', Obj [
              (''downPaymentPct'', Obj [(''type'', Str ''number''), (''minimum'', Num (Fin 0))]),
              (''rateAnnualPct'', Obj [(''type'', Str ''number''), (''minimum'', Num (Fin 0))]),
              (''termYears'', Obj [(''type'', Str ''integer''), (''minimum'', Num (Fin 1))]),
              (''loanAmount'', Obj [(''type'', Arr [Str ''number'', Str ''null'']), (''minimum'', Num (Fin 0))]),
              (''monthlyPI'', Obj [(''type'', Arr [Str ''number'', Str ''null'']), (''minimum'', Num (Fin 0))]),
              (''annualDebtService'', Obj [(''type'', Arr [Str ''number'', Str ''null'']), (''minimum'', Num (Fin 0))])])]),
          (''totals'', Obj [
            (''type'', Str ''object''),
            (''additionalProperties'', Bool False),
            (''required'', Arr [
              Str ''egiAnnual'', Str ''opExAnnual'', Str ''noiAnnual'',
              Str ''capRatePct'', Str ''dscr'', Str ''cashFlowAnnual'',
              Str ''cashOnCashRoiPct'', Str ''onePercentRulePct'']),
            (''properties'', Obj [
              (''egiAnnual'', Obj [(''type'', Arr [Str ''number'', Str ''null'']), (''minimum'', Num (Fin 0))]),
              (''opExAnnual'', Obj [(''type'', Arr [Str ''number'', Str ''null'']), (''minimum'', Num (Fin 0))]),
              (''noiAnnual'', Obj [(''type'', Arr [Str ''number'', Str ''null'']), (''minimum'', Num (Fin 0))]),
              (''capRatePct'', Obj [(''type'', Arr [Str ''number'', Str ''null'']), (''minimum'', Num (Fin 0))]),
              (''dscr'', Obj [(''type'', Arr [Str ''number'', Str ''null'']), (''minimum'', Num (Fin 0))]),
              (''cashFlowAnnual'', Obj [
                (''type'', Arr [Str ''number'', Str ''null'']),
                (''minimum'', Num (Fin (- 1000000000)))]),
              (''cashOnCashRoiPct'', Obj [(''type'', Arr [Str ''number'', Str ''null''])]),
              (''onePercentRulePct'', Obj [(''type'', Arr [Str ''number'', Str ''null'']), (''minimum'', Num (Fin 0))])])]),
          (''sensitivity'', Obj [
            (''type'', Str ''object''),
            (''additionalProperties'', Bool False),
            (''required'', Arr [
              Str ''rentMinus10'', Str ''baseCase'', Str ''rentPlus10'',
              Str ''opExMinus10'', Str ''opExPlus10'']),
            (''properties'', Obj [
              (''rentMinus10'', Obj [(''$ref'', Str ''#/$defs/sensitivityCase'')]),
              (''baseCase'', Obj [(''$ref'', Str ''#/$defs/sensitivityCase'')]),
              (''rentPlus10'', Obj [(''$ref'', Str ''#/$defs/sensitivityCase'')]),
              (''opExMinus10'', Obj [(''$ref'', Str ''#/$defs/sensitivityCase'')]),
              (''opExPlus10'', Obj [(''$ref'', Str ''#/$defs/sensitivityCase'')])])]),
          (''negotiation'', Obj [
            (''type'', Str ''object''),
            (''additionalProperties'', Bool False),
            (''required'', Arr [
              Str ''targetCapPct'', Str ''maxPurchasePriceAtTargetCap'',
              Str ''assumptions'']),
            (''properties'', Obj [
              (''targetCapPct'', Obj [(''type'', Str ''number''), (''minimum'', Num (Fin 0))]),
              (''maxPurchasePriceAtTargetCap'', Obj [(''type'', Arr [Str ''number'', Str ''null'']), (''minimum'', Num (Fin 0))]),
              (''assumptions'', Obj [
                (''type'', Str ''object''),
                (''additionalProperties'', Bool False),
                (''required'', Arr [Str ''closingCostPct'', Str ''pointsPct'']),
                (''properties'', Obj [
                  (''closingCostPct'', Obj [(''type'', Str ''number''), (''minimum'', Num (Fin 0))]),
                  (''pointsPct'', Obj [(''type'', Str ''number''), (''minimum'', Num (Fin 0))])])])])]),
          (''glossary'', Obj [
            (''type'', Str ''object''),
            (''additionalProperties'', Bool False),
            (''required'', Arr [
              Str ''EGI'', Str ''OpEx'', Str ''NOI'', Str ''Cap'', Str ''DSCR'',
              Str ''CoC'']),
            (''properties'', Obj [
              (''EGI'', Obj [(''type'', Str ''string'')]),
              (''OpEx'', Obj [(''type'', Str ''string'')]),
              (''NOI'', Obj [(''type'', Str ''string'')]),
              (''Cap'', Obj [(''type'', Str ''string'')]),
              (''DSCR'', Obj [(''type'', Str ''string'')]),
              (''CoC'', Obj [(''type'', Str ''string'')])])]),
          (''$defs'', Obj [
            (''unit'', Obj [
              (''type'', Str ''object''),
              (''additionalProperties'', Bool False),
              (''required'', Arr [
                Str ''name'', Str ''beds'', Str ''baths'', Str ''sqft'',
                Str ''modeledRentMonthly'', Str ''leaseTermMonths'', Str ''notes'']),
              (''properties'', Obj [
                (''name'', Obj [(''type'', Str ''string'')]),
                (''beds'', Obj [(''type'', Str ''number''), (''minimum'', Num (Fin 0))]),
                (''baths'', Obj [(''type'', Str ''number''), (''minimum'', Num (Fin 0))]),
                (''sqft'', Obj [(''type'', Arr [Str ''number'', Str ''null'']), (''minimum'', Num (Fin 0))]),
                (''modeledRentMonthly'', Obj [(''type'', Arr [Str ''number'', Str ''null'']), (''minimum'', Num (Fin 0))]),
                (''leaseTermMonths'', Obj [(''type'', Str ''integer''), (''minimum'', Num (Fin 1))]),
                (''notes'', Obj [(''type'', Str ''string'')])])]),
            (''rentComp'', Obj [
              (''type'', Str ''object''),
              (''additionalProperties'', Bool False),
              (''required'', Arr [
                Str ''address'', Str ''beds'', Str ''baths'', Str ''askingRent'',
                Str ''distanceMiles'', Str ''conditionNote'']),
              (''properties'', Obj [
                (''address'', Obj [(''type'', Str ''string''), (''minLength'', Num (Fin 3))]),
                (''beds'', Obj [(''type'', Str ''number''), (''minimum'', Num (Fin 0))]),
                (''baths'', Obj [(''type'', Str ''number''), (''minimum'', Num (Fin 0))]),
                (''askingRent'', Obj [(''type'', Arr [Str ''number'', Str ''null'']), (''minimum'', Num (Fin 0))]),
                (''distanceMiles'', Obj [(''type'', Arr [Str ''number'', Str ''null'']), (''minimum'', Num (Fin 0))]),
                (''conditionNote'', Obj [(''type'', Str ''string'')])])]),
            (''sensitivityCase'', Obj [
              (''type'', Str ''object''),
              (''additionalProperties'', Bool False),
              (''required'', Arr [
                Str ''noiAnnual'', Str ''capRatePct'', Str ''dscr'',
                Str ''cashFlowAnnual'']),
              (''properties'', Obj [
                (''noiAnnual'', Obj [(''type'', Arr [Str ''number'', Str ''null''])]),
                (''capRatePct'', Obj [(''type'', Arr [Str ''number'', Str ''null''])]),
                (''dscr'', Obj [(''type'', Arr [Str ''number'', Str ''null''])]),
                (''cashFlowAnnual'', Obj [(''type'', Arr [Str ''number'', Str ''null''])])])])])])])]"


text \<open>
  Reading a schema, in the vocabulary of JSON Schema that the constants use: the
  \<^verbatim>\<open>required\<close> keys, the names under \<^verbatim>\<open>properties\<close>, the schema of one property, and a
  \<^verbatim>\<open>$ref\<close>, which is a path from the root of the document (\<^verbatim>\<open>#/a/b\<close>).
\<close>

fun strs :: "jsval list \<Rightarrow> string list" where
  "strs [] = []"
| "strs (Str s # vs) = s # strs vs"
| "strs (_ # vs) = strs vs"

definition requiredKeys :: "jsval \<Rightarrow> string list" where
  "requiredKeys s = (case js_get s ''required'' of Arr vs \<Rightarrow> strs vs | _ \<Rightarrow> [])"

definition propertyNames :: "jsval \<Rightarrow> string list" where
  "propertyNames s = (case js_get s ''properties'' of Obj kvs \<Rightarrow> map fst kvs | _ \<Rightarrow> [])"

definition subschema :: "jsval \<Rightarrow> string \<Rightarrow> jsval" where
  "subschema s k = js_get (js_get s ''properties'') k"

fun splitOn :: "char \<Rightarrow> string \<Rightarrow> string list" where
  "splitOn c [] = [[]]"
| "splitOn c (x # xs) =
     (if x = c then [] # splitOn c xs
      else (case splitOn c xs of [] \<Rightarrow> [[x]] | w # ws \<Rightarrow> (x # w) # ws))"

definition resolveRef :: "jsval \<Rightarrow> string \<Rightarrow> jsval" where
  "resolveRef doc r =
     (case splitOn CHR ''/'' r of
        w # path \<Rightarrow> (if w = ''#'' then foldl js_get doc path else Undefined)
      | [] \<Rightarrow> Undefined)"

definition deref :: "jsval \<Rightarrow> jsval \<Rightarrow> jsval" where
  "deref doc s = (case js_get s ''$ref'' of Str r \<Rightarrow> resolveRef doc r | _ \<Rightarrow> s)"

text \<open>
  A schema whose \<^verbatim>\<open>type\<close> is missing, is \<^verbatim>\<open>object\<close> or lists \<^verbatim>\<open>object\<close> accepts objects.
  \<open>forbidsExtra n doc s\<close>: within depth \<open>n\<close>, every schema under \<open>s\<close> that accepts
  objects has \<^verbatim>\<open>additionalProperties: false\<close>, through properties, array items and
  references into \<open>doc\<close>.
\<close>

definition acceptsObject :: "jsval \<Rightarrow> bool" where
  "acceptsObject s =
     (case js_get s ''type'' of
        Undefined \<Rightarrow> True
      | Str t \<Rightarrow> t = ''object''
      | Arr ts \<Rightarrow> List.member ts (Str ''object'')
      | _ \<Rightarrow> False)"

fun forbidsExtra :: "nat \<Rightarrow> jsval \<Rightarrow> jsval \<Rightarrow> bool" where
  "forbidsExtra 0 doc s = False"
| "forbidsExtra (Suc n) doc s =
     (case js_get s ''$ref'' of
        Str r \<Rightarrow> forbidsExtra n doc (resolveRef doc r)
      | _ \<Rightarrow>
          (if acceptsObject s
           then js_get s ''additionalProperties'' = Bool False
                \<and> (case js_get s ''properties'' of
                       Obj kvs \<Rightarrow> list_all (\<lambda>kv. forbidsExtra n doc (snd kv)) kvs
                     | _ \<Rightarrow> True)
           else True)
          \<and> (case js_get s ''items'' of
                Undefined \<Rightarrow> True
              | it \<Rightarrow> forbidsExtra n doc it))"


text \<open>
  The contract of the spec on a schema document: the fourteen top-level keys are required
  and are the only properties, no schema of the tree admits an additional property, the
  unit list has at least one entry and the comparables at least five, and the sensitivity
  object has the five scenarios, each with the four fields.
\<close>

definition REPORT_SCHEMA_doc :: jsval where
  "REPORT_SCHEMA_doc = js_get PROPERTY_REPORT_SCHEMA ''schema''"

definition topLevelKeys :: "string list" where
  "topLevelKeys = [''version'', ''reportMeta'', ''subject'', ''purchase'', ''propertySnapshot'',
     ''units'', ''rents'', ''rentComps'', ''operatingAssumptions'', ''financing'', ''totals'',
     ''sensitivity'', ''negotiation'', ''glossary'']"

definition scenarioNames :: "string list" where
  "scenarioNames = [''rentMinus10'', ''baseCase'', ''rentPlus10'', ''opExMinus10'', ''opExPlus10'']"

definition scenarioFields :: "string list" where
  "scenarioFields = [''noiAnnual'', ''capRatePct'', ''dscr'', ''cashFlowAnnual'']"

definition scenarioShape :: "jsval \<Rightarrow> jsval \<Rightarrow> bool" where
  "scenarioShape doc s =
     (requiredKeys (deref doc s) = scenarioFields \<and> propertyNames (deref doc s) = scenarioFields)"

definition contract :: "jsval \<Rightarrow> bool" where
  "contract S =
     (requiredKeys S = topLevelKeys \<and> propertyNames S = topLevelKeys
      \<and> forbidsExtra 8 S S
      \<and> js_get (subschema S ''units'') ''minItems'' = Num (Fin 1)
      \<and> js_get (subschema S ''rentComps'') ''minItems'' = Num (Fin 5)
      \<and> requiredKeys (subschema S ''sensitivity'') = scenarioNames
      \<and> propertyNames (subschema S ''sensitivity'') = scenarioNames
      \<and> list_all (\<lambda>k. scenarioShape S (subschema (subschema S ''sensitivity'') k)) scenarioNames)"

section \<open>The store\<close>

text \<open>
  Objects and arrays of the source language are mutable and held by reference. To state
  what the calculator leaves unchanged, the store is explicit here: a list of objects,
  the address of an object being its index, and values that refer to objects by address.
  Creating an object appends it to the store; the source of \<^verbatim>\<open>withDefaults\<close> and \<^verbatim>\<open>Report\<close>
  has no assignment to a field, so the model has no operation that changes a stored object.
\<close>

type_synonym addr = nat

datatype hval = HUndefined | HNull | HBool bool | HNum jsnum | HStr string | HRef addr

datatype hobj = HObject "(string \<times> hval) list" | HArray "hval list"

type_synonym heap = "hobj list"

definition alloc :: "heap \<Rightarrow> hobj \<Rightarrow> hval \<times> heap" where
  "alloc h ob = (HRef (length h), h @ [ob])"

fun h_nullish :: "hval \<Rightarrow> bool" where
  "h_nullish HUndefined = True"
| "h_nullish HNull = True"
| "h_nullish _ = False"

fun h_truthy :: "hval \<Rightarrow> bool" where
  "h_truthy HUndefined = False"
| "h_truthy HNull = False"
| "h_truthy (HBool b) = b"
| "h_truthy (HNum NaN) = False"
| "h_truthy (HNum (Fin x)) = (x \<noteq> 0)"
| "h_truthy (HNum _) = True"
| "h_truthy (HStr s) = (s \<noteq> [])"
| "h_truthy (HRef _) = True"

definition h_nc :: "hval \<Rightarrow> hval \<Rightarrow> hval" where
  "h_nc a b = (if h_nullish a then b else a)"

definition h_or :: "hval \<Rightarrow> hval \<Rightarrow> hval" where
  "h_or a b = (if h_truthy a then a else b)"

definition h_get :: "heap \<Rightarrow> hval \<Rightarrow> string \<Rightarrow> hval" where
  "h_get h x k =
     (case x of
        HRef a \<Rightarrow>
          (if a < length h
           then (case h ! a of
                   HObject kvs \<Rightarrow> (case map_of kvs k of None \<Rightarrow> HUndefined | Some v \<Rightarrow> v)
                 | HArray _ \<Rightarrow> HUndefined)
           else HUndefined)
      | _ \<Rightarrow> HUndefined)"

definition h_optget :: "heap \<Rightarrow> hval \<Rightarrow> string \<Rightarrow> hval" where
  "h_optget h x k = (if h_nullish x then HUndefined else h_get h x k)"

text \<open>The elements of an array; \<open>None\<close> when \<^verbatim>\<open>Array.isArray\<close> is false.\<close>

definition h_elems :: "heap \<Rightarrow> hval \<Rightarrow> hval list option" where
  "h_elems h v =
     (case v of
        HRef a \<Rightarrow>
          (if a < length h
           then (case h ! a of HArray xs \<Rightarrow> Some xs | HObject _ \<Rightarrow> None)
           else None)
      | _ \<Rightarrow> None)"

text \<open>
  \<^verbatim>\<open>withDefaults\<close> on the store, in the order the object literal is evaluated: the fields
  up to \<^verbatim>\<open>utilsAnnualLL\<close> are read, the unit list is the input's array itself (the same
  reference) or a new array with one new unit, the financing object is new, the
  comparables are the input's or a new empty array. The result \<^verbatim>\<open>d\<close> is a new object,
  \<open>d_h\<close>; which address a new object gets is immaterial.
\<close>

definition defaultUnits_h :: "heap \<Rightarrow> hval \<times> heap" where
  "defaultUnits_h h =
     (case alloc h (HObject [(''name'', HStr ''Unit A''), (''rent'', HNum (Fin 0))]) of
        (u, h1) \<Rightarrow> alloc h1 (HArray [u]))"

definition unitsOrDefault_h :: "heap \<Rightarrow> hval \<Rightarrow> hval \<times> heap" where
  "unitsOrDefault_h h u =
     (case h_elems h u of
        Some us \<Rightarrow> (if length us \<noteq> 0 then (u, h) else defaultUnits_h h)
      | None \<Rightarrow> defaultUnits_h h)"

definition financing_h :: "heap \<Rightarrow> hval \<Rightarrow> hval \<times> heap" where
  "financing_h h x =
     alloc h (HObject [
       (''downPct'', h_nc (h_optget h (h_get h x ''financing'') ''downPct'') (HNum (Fin 0.25))),
       (''rateAnnual'', h_nc (h_optget h (h_get h x ''financing'') ''rateAnnual'') (HNum (Fin 0.077))),
       (''termMonths'', h_nc (h_optget h (h_get h x ''financing'') ''termMonths'') (HNum (Fin 360)))])"

definition comps_h :: "heap \<Rightarrow> hval \<Rightarrow> hval \<times> heap" where
  "comps_h h x =
     (if h_nullish (h_get h x ''comps'') then alloc h (HArray []) else (h_get h x ''comps'', h))"

definition d_h :: "heap \<Rightarrow> hval \<Rightarrow> hval \<Rightarrow> hval \<Rightarrow> hval \<Rightarrow> hobj" where
  "d_h h x units' fin comps =
     HObject [
       (''address'', h_or (h_get h x ''address'') (HStr [])),
       (''purchasePrice'', h_nc (h_get h x ''purchasePrice'') (HNum (Fin 0))),
       (''closingPct'', h_nc (h_get h x ''closingPct'') (HNum (Fin 0.03))),
       (''pointsOnLoanPctOfPrice'', h_nc (h_get h x ''pointsOnLoanPctOfPrice'') (HNum (Fin 0.0075))),
       (''vacancyRate'', h_nc (h_get h x ''vacancyRate'') (HNum (Fin 0.05))),
       (''maintPctOfGrossRent'', h_nc (h_get h x ''maintPctOfGrossRent'') (HNum (Fin 0.08))),
       (''mgmtPctOfEGI'', h_nc (h_get h x ''mgmtPctOfEGI'') (HNum (Fin 0.08))),
       (''insuranceAnnual'', h_nc (h_get h x ''insuranceAnnual'') (HNum (Fin 0))),
       (''taxesAnnual'', h_nc (h_get h x ''taxesAnnual'') (HNum (Fin 0))),
       (''otherAnnual'', h_nc (h_get h x ''otherAnnual'') (HNum (Fin 0))),
       (''hoaAnnual'', h_nc (h_get h x ''hoaAnnual'') (HNum (Fin 0))),
       (''utilsAnnualLL'', h_nc (h_get h x ''utilsAnnualLL'') (HNum (Fin 0))),
       (''units'', units'),
       (''financing'', fin),
       (''comps'', comps)]"

definition withDefaults_h :: "heap \<Rightarrow> hval \<Rightarrow> error + hval \<times> heap" where
  "withDefaults_h h x =
     (if h_nullish x then Inl TypeError
      else
        (case unitsOrDefault_h h (h_get h x ''units'') of (units', h1) \<Rightarrow>
        (case financing_h h1 x of (fin, h2) \<Rightarrow>
        (case comps_h h2 x of (comps, h3) \<Rightarrow>
          Inr (alloc h3 (d_h h x units' fin comps))))))"

text \<open>
  A value that is not a reference is the same value in both models; \<open>shallow\<close> maps a
  reference to an object without fields, which like it is truthy, is not \<^verbatim>\<open>null\<close> or
  \<^verbatim>\<open>undefined\<close> and is not a number.
\<close>

fun shallow :: "hval \<Rightarrow> jsval" where
  "shallow HUndefined = Undefined"
| "shallow HNull = Null"
| "shallow (HBool b) = Bool b"
| "shallow (HNum a) = Num a"
| "shallow (HStr s) = Str s"
| "shallow (HRef a) = Obj []"

text \<open>The reads of \<^verbatim>\<open>Report\<close> through \<^verbatim>\<open>d\<close>, on the store.\<close>

definition readUnit_h :: "heap \<Rightarrow> hval \<Rightarrow> error + unit_t" where
  "readUnit_h h u =
     (if h_nullish u then Inl TypeError
      else (case h_get h u ''rent'' of
              HNum (Fin a) \<Rightarrow> Inr \<lparr>name = shallow (h_get h u ''name''), rent = Some a\<rparr>
            | v \<Rightarrow> (if h_truthy v then Inl NotNumeric
                    else Inr \<lparr>name = shallow (h_get h u ''name''), rent = None\<rparr>)))"

definition readUnits_h :: "heap \<Rightarrow> hval \<Rightarrow> error + unit_t list" where
  "readUnits_h h v = (case h_elems h v of Some us \<Rightarrow> mapE (readUnit_h h) us | None \<Rightarrow> Inl TypeError)"

definition readFinancing_h :: "heap \<Rightarrow> hval \<Rightarrow> error + financing_t" where
  "readFinancing_h h f =
     (if h_nullish f then Inl TypeError
      else bindE (readNum (shallow (h_get h f ''downPct''))) (\<lambda>dp.
           bindE (readNum (shallow (h_get h f ''rateAnnual''))) (\<lambda>ra.
           bindE (readInt (shallow (h_get h f ''termMonths''))) (\<lambda>tm.
           Inr \<lparr>downPct = dp, rateAnnual = ra, termMonths = tm\<rparr>))))"

definition readInputs_h :: "heap \<Rightarrow> hval \<Rightarrow> error + inputs_t" where
  "readInputs_h h d =
     bindE (readUnits_h h (h_get h d ''units'')) (\<lambda>us.
     bindE (readNum (shallow (h_get h d ''vacancyRate''))) (\<lambda>vr.
     bindE (readNum (shallow (h_get h d ''maintPctOfGrossRent''))) (\<lambda>mt.
     bindE (readNum (shallow (h_get h d ''mgmtPctOfEGI''))) (\<lambda>mg.
     bindE (readNum (shallow (h_get h d ''taxesAnnual''))) (\<lambda>tx.
     bindE (readNum (shallow (h_get h d ''insuranceAnnual''))) (\<lambda>ins.
     bindE (readNum (shallow (h_get h d ''hoaAnnual''))) (\<lambda>hoa.
     bindE (readNum (shallow (h_get h d ''utilsAnnualLL''))) (\<lambda>ut.
     bindE (readNum (shallow (h_get h d ''otherAnnual''))) (\<lambda>ot.
     bindE (readNum (shallow (h_get h d ''purchasePrice''))) (\<lambda>pp.
     bindE (readNum (shallow (h_get h d ''closingPct''))) (\<lambda>cp.
     bindE (readFinancing_h h (h_get h d ''financing'')) (\<lambda>fin.
     bindE (readNum (shallow (h_get h d ''pointsOnLoanPctOfPrice''))) (\<lambda>pts.
     Inr \<lparr>purchasePrice = pp, closingPct = cp, pointsOnLoanPctOfPrice = pts,
          vacancyRate = vr, maintPctOfGrossRent = mt, mgmtPctOfEGI = mg,
          insuranceAnnual = ins, taxesAnnual = tx, otherAnnual = ot, hoaAnnual = hoa,
          utilsAnnualLL = ut, units = us, financing = fin\<rparr>)))))))))))))"

text \<open>
  \<^verbatim>\<open>Report\<close> on the store: the typed input of the calculator, whose locals are functions
  of it, and the store the run leaves.
\<close>

definition Report_h :: "heap \<Rightarrow> hval \<Rightarrow> error + inputs_t \<times> heap" where
  "Report_h h data =
     bindE (withDefaults_h h data) (\<lambda>(d, h').
     bindE (readInputs_h h' d) (\<lambda>i. Inr (i, h')))"

text \<open>
  What the calculator reads of an input object, as a value without references: its
  numeric fields, the rents and names of its units, the three fields of its financing
  object.
\<close>

definition reifyUnit :: "heap \<Rightarrow> hval \<Rightarrow> jsval" where
  "reifyUnit h u =
     (if h_nullish u then shallow u
      else Obj [(''name'', shallow (h_get h u ''name'')), (''rent'', shallow (h_get h u ''rent''))])"

definition reifyUnits :: "heap \<Rightarrow> hval \<Rightarrow> jsval" where
  "reifyUnits h v = (case h_elems h v of Some us \<Rightarrow> Arr (map (reifyUnit h) us) | None \<Rightarrow> shallow v)"

definition reifyFinancing :: "heap \<Rightarrow> hval \<Rightarrow> jsval" where
  "reifyFinancing h f =
     (if h_nullish f then shallow f
      else Obj [(''downPct'', shallow (h_get h f ''downPct'')),
                (''rateAnnual'', shallow (h_get h f ''rateAnnual'')),
                (''termMonths'', shallow (h_get h f ''termMonths''))])"

definition reify :: "heap \<Rightarrow> hval \<Rightarrow> jsval" where
  "reify h x =
     (if h_nullish x then shallow x
      else Obj [
        (''purchasePrice'', shallow (h_get h x ''purchasePrice'')),
        (''closingPct'', shallow (h_get h x ''closingPct'')),
        (''pointsOnLoanPctOfPrice'', shallow (h_get h x ''pointsOnLoanPctOfPrice'')),
        (''vacancyRate'', shallow (h_get h x ''vacancyRate'')),
        (''maintPctOfGrossRent'', shallow (h_get h x ''maintPctOfGrossRent'')),
        (''mgmtPctOfEGI'', shallow (h_get h x ''mgmtPctOfEGI'')),
        (''insuranceAnnual'', shallow (h_get h x ''insuranceAnnual'')),
        (''taxesAnnual'', shallow (h_get h x ''taxesAnnual'')),
        (''otherAnnual'', shallow (h_get h x ''otherAnnual'')),
        (''hoaAnnual'', shallow (h_get h x ''hoaAnnual'')),
        (''utilsAnnualLL'', shallow (h_get h x ''utilsAnnualLL'')),
        (''units'', reifyUnits h (h_get h x ''units'')),
        (''financing'', reifyFinancing h (h_get h x ''financing''))])"

text \<open>
  An input is well-formed in a store when the references the calculator follows from it
  (to the input, its unit array, the units, its financing object) are addresses of the
  store.
\<close>

definition wf_val :: "heap \<Rightarrow> hval \<Rightarrow> bool" where
  "wf_val h v = (case v of HRef a \<Rightarrow> a < length h | _ \<Rightarrow> True)"

definition wf_input :: "heap \<Rightarrow> hval \<Rightarrow> bool" where
  "wf_input h x =
     (wf_val h x \<and> wf_val h (h_get h x ''units'')
      \<and> (case h_elems h (h_get h x ''units'') of Some us \<Rightarrow> list_all (wf_val h) us | None \<Rightarrow> True)
      \<and> wf_val h (h_get h x ''financing''))"

text \<open>The input of P4 in a store of three objects, and the store a run leaves.\<close>

definition P4_heap :: heap where
  "P4_heap = [
     HObject [(''name'', HStr ''Unit A''), (''rent'', HNum (Fin 2000))],
     HArray [HRef 0],
     HObject [(''units'', HRef 1), (''purchasePrice'', HNum (Fin 500000))]]"

definition P4_heap' :: heap where
  "P4_heap' = P4_heap @ [
     HObject [(''downPct'', HNum (Fin 0.25)), (''rateAnnual'', HNum (Fin 0.077)),
              (''termMonths'', HNum (Fin 360))],
     HArray [],
     HObject [
       (''address'', HStr []),
       (''purchasePrice'', HNum (Fin 500000)),
       (''closingPct'', HNum (Fin 0.03)),
       (''pointsOnLoanPctOfPrice'', HNum (Fin 0.0075)),
       (''vacancyRate'', HNum (Fin 0.05)),
       (''maintPctOfGrossRent'', HNum (Fin 0.08)),
       (''mgmtPctOfEGI'', HNum (Fin 0.08)),
       (''insuranceAnnual'', HNum (Fin 0)),
       (''taxesAnnual'', HNum (Fin 0)),
       (''otherAnnual'', HNum (Fin 0)),
       (''hoaAnnual'', HNum (Fin 0)),
       (''utilsAnnualLL'', HNum (Fin 0)),
       (''units'', HRef 1),
       (''financing'', HRef 3),
       (''comps'', HRef 4)]]"

text \<open>
  \<open>unchanged h k\<close>: every object of the store \<open>h\<close> is in the store \<open>k\<close>, at its address
  and with its content.
\<close>

definition unchanged :: "heap \<Rightarrow> heap \<Rightarrow> bool" where
  "unchanged h k = (take (length h) k = h)"

text \<open>The results that \<^verbatim>\<open>Report\<close> computes from its typed input.\<close>

definition InvestmentResult ::
  "inputs_t \<Rightarrow> real \<times> real \<times> real \<times> real \<times> real \<times> real \<times> jsnum \<times> jsnum \<times> jsnum \<times> jsnum \<times> real \<times> jsnum" where
  "InvestmentResult d =
     (annualGSR d, egi d, opEx d, noi d, totalCost d, loanAmount d, monthlyPI d,
      annualDebtService d, dscr d, capRate d, cashInvested d, cashFlow d)"

section \<open>Example inputs and predicates of the statements\<close>

text \<open>
  The inputs of the spec's worked examples, written with the page's field names, and the
  typed inputs the calculator reads from them.
\<close>

definition P4_data :: jsval where
  "P4_data = Obj [
     (''units'', Arr [Obj [(''name'', Str ''Unit A''), (''rent'', Num (Fin 2000))]]),
     (''purchasePrice'', Num (Fin 500000))]"

definition P4_defaulted :: jsval where
  "P4_defaulted = Obj [
     (''address'', Str []),
     (''purchasePrice'', Num (Fin 500000)),
     (''closingPct'', Num (Fin 0.03)),
     (''pointsOnLoanPctOfPrice'', Num (Fin 0.0075)),
     (''vacancyRate'', Num (Fin 0.05)),
     (''maintPctOfGrossRent'', Num (Fin 0.08)),
     (''mgmtPctOfEGI'', Num (Fin 0.08)),
     (''insuranceAnnual'', Num (Fin 0)),
     (''taxesAnnual'', Num (Fin 0)),
     (''otherAnnual'', Num (Fin 0)),
     (''hoaAnnual'', Num (Fin 0)),
     (''utilsAnnualLL'', Num (Fin 0)),
     (''units'', Arr [Obj [(''name'', Str ''Unit A''), (''rent'', Num (Fin 2000))]]),
     (''financing'', Obj [(''downPct'', Num (Fin 0.25)), (''rateAnnual'', Num (Fin 0.077)),
                          (''termMonths'', Num (Fin 360))]),
     (''comps'', Arr [])]"

definition P4_d :: inputs_t where
  "P4_d = \<lparr>purchasePrice = 500000, closingPct = 0.03, pointsOnLoanPctOfPrice = 0.0075,
          vacancyRate = 0.05, maintPctOfGrossRent = 0.08, mgmtPctOfEGI = 0.08,
          insuranceAnnual = 0, taxesAnnual = 0, otherAnnual = 0, hoaAnnual = 0,
          utilsAnnualLL = 0, units = [\<lparr>name = Str ''Unit A'', rent = Some 2000\<rparr>],
          financing = \<lparr>downPct = 0.25, rateAnnual = 0.077, termMonths = 360\<rparr>\<rparr>"

definition P6_data :: jsval where
  "P6_data = Obj [
     (''purchasePrice'', Num (Fin 300000)),
     (''units'', Arr [Obj [(''rent'', Num (Fin 1500))]]),
     (''taxesAnnual'', Num (Fin 3000)),
     (''insuranceAnnual'', Num (Fin 1200)),
     (''financing'', Obj [(''downPct'', Num (Fin 0.25)), (''rateAnnual'', Num (Fin 0.06)),
                          (''termMonths'', Num (Fin 360))])]"

definition P6_d :: inputs_t where
  "P6_d = \<lparr>purchasePrice = 300000, closingPct = 0.03, pointsOnLoanPctOfPrice = 0.0075,
          vacancyRate = 0.05, maintPctOfGrossRent = 0.08, mgmtPctOfEGI = 0.08,
          insuranceAnnual = 1200, taxesAnnual = 3000, otherAnnual = 0, hoaAnnual = 0,
          utilsAnnualLL = 0, units = [\<lparr>name = Undefined, rent = Some 1500\<rparr>],
          financing = \<lparr>downPct = 0.25, rateAnnual = 0.06, termMonths = 360\<rparr>\<rparr>"

text \<open>Inputs with a zero rate, a zero loan and a zero price, and predicates on results.\<close>

definition is_finite :: "jsnum \<Rightarrow> bool" where
  "is_finite a = (case a of Fin _ \<Rightarrow> True | _ \<Rightarrow> False)"

definition within_tol :: "jsnum \<Rightarrow> real \<Rightarrow> real \<Rightarrow> bool" where
  "within_tol v c tol = (case v of Fin p \<Rightarrow> \<bar>p - c\<bar> \<le> tol | _ \<Rightarrow> False)"

definition ZeroRate_data :: jsval where
  "ZeroRate_data = Obj [
     (''units'', Arr [Obj [(''name'', Str ''Unit A''), (''rent'', Num (Fin 2000))]]),
     (''purchasePrice'', Num (Fin 500000)),
     (''financing'', Obj [(''rateAnnual'', Num (Fin 0))])]"

definition ZeroRate_d :: inputs_t where
  "ZeroRate_d = P4_d\<lparr>financing := \<lparr>downPct = 0.25, rateAnnual = 0, termMonths = 360\<rparr>\<rparr>"

definition AllCash_data :: jsval where
  "AllCash_data = Obj [
     (''units'', Arr [Obj [(''name'', Str ''Unit A''), (''rent'', Num (Fin 2000))]]),
     (''purchasePrice'', Num (Fin 500000)),
     (''financing'', Obj [(''downPct'', Num (Fin 1))])]"

definition AllCash_d :: inputs_t where
  "AllCash_d = P4_d\<lparr>financing := \<lparr>downPct = 1, rateAnnual = 0.077, termMonths = 360\<rparr>\<rparr>"

definition ZeroPrice_data :: jsval where
  "ZeroPrice_data = Obj [
     (''units'', Arr [Obj [(''name'', Str ''Unit A''), (''rent'', Num (Fin 2000))]]),
     (''purchasePrice'', Num (Fin 0))]"

definition ZeroPrice_d :: inputs_t where
  "ZeroPrice_d = P4_d\<lparr>purchasePrice := 0\<rparr>"

text \<open>
  What the normalization is to deliver, in the spec's words: a whole-number percentage
  \<open>n\<close> becomes \<open>n / 100\<close>, anything that is not a number becomes the default fraction;
  a term of \<open>y\<close> years becomes \<open>12 * y\<close> months, 360 months when it is not a number.
  Then a response of the generation service with some assumptions missing or not numeric,
  what \<^verbatim>\<open>mapFromSchema\<close> makes of it, and its defaulted form.
\<close>

definition fractionOrDefault :: "jsval \<Rightarrow> real \<Rightarrow> jsval" where
  "fractionOrDefault v dflt = (case v of Num n \<Rightarrow> Num (js_div n (Fin 100)) | _ \<Rightarrow> Num (Fin dflt))"

definition monthsOrDefault :: "jsval \<Rightarrow> jsval" where
  "monthsOrDefault y = (case y of Num n \<Rightarrow> Num (js_mul n (Fin 12)) | _ \<Rightarrow> Num (Fin 360))"

definition Schema_data :: jsval where
  "Schema_data = Obj [
     (''subject'', Obj [(''address'', Str ''1 Main St'')]),
     (''purchase'', Obj [(''purchasePrice'', Num (Fin 500000)), (''closingCostPct'', Num (Fin 0.03)),
                         (''pointsPct'', Num (Fin 0.0075))]),
     (''units'', Arr [Obj [(''name'', Str ''Unit A''), (''modeledRentMonthly'', Num (Fin 2000))]]),
     (''operatingAssumptions'', Obj [(''vacancyPct'', Num (Fin 5)),
                                     (''maintenancePctOfGrossRent'', Num (Fin 10)),
                                     (''managementPctOfEGI'', Null)]),
     (''financing'', Obj [(''downPaymentPct'', Num (Fin 20)), (''rateAnnualPct'', Str ''7.5''),
                          (''termYears'', Num (Fin 15))])]"

definition Schema_mapped :: jsval where
  "Schema_mapped = Obj [
     (''address'', Str ''1 Main St''),
     (''purchasePrice'', Num (Fin 500000)),
     (''closingPct'', Num (Fin 0.03)),
     (''pointsOnLoanPctOfPrice'', Num (Fin 0.0075)),
     (''vacancyRate'', Num (Fin 0.05)),
     (''maintPctOfGrossRent'', Num (Fin 0.1)),
     (''mgmtPctOfEGI'', Num (Fin 0.08)),
     (''insuranceAnnual'', Num (Fin 0)),
     (''taxesAnnual'', Num (Fin 0)),
     (''hoaAnnual'', Num (Fin 0)),
     (''utilsAnnualLL'', Num (Fin 0)),
     (''otherAnnual'', Num (Fin 0)),
     (''units'', Arr [Obj [(''name'', Str ''Unit A''), (''rent'', Num (Fin 2000))]]),
     (''financing'', Obj [(''downPct'', Num (Fin 0.2)), (''rateAnnual'', Num (Fin 0.077)),
                          (''termMonths'', Num (Fin 180))]),
     (''comps'', Arr [])]"

definition Schema_defaulted :: jsval where
  "Schema_defaulted = Obj [
     (''address'', Str ''1 Main St''),
     (''purchasePrice'', Num (Fin 500000)),
     (''closingPct'', Num (Fin 0.03)),
     (''pointsOnLoanPctOfPrice'', Num (Fin 0.0075)),
     (''vacancyRate'', Num (Fin 0.05)),
     (''maintPctOfGrossRent'', Num (Fin 0.1)),
     (''mgmtPctOfEGI'', Num (Fin 0.08)),
     (''insuranceAnnual'', Num (Fin 0)),
     (''taxesAnnual'', Num (Fin 0)),
     (''otherAnnual'', Num (Fin 0)),
     (''hoaAnnual'', Num (Fin 0)),
     (''utilsAnnualLL'', Num (Fin 0)),
     (''units'', Arr [Obj [(''name'', Str ''Unit A''), (''rent'', Num (Fin 2000))]]),
     (''financing'', Obj [(''downPct'', Num (Fin 0.2)), (''rateAnnual'', Num (Fin 0.077)),
                          (''termMonths'', Num (Fin 180))]),
     (''comps'', Arr [])]"

text \<open>
  A report as the schema shapes it, as far as the normalization can fail: the report is
  an object, and the entries of its unit list and of its comparables are objects.
\<close>

definition entriesOk :: "jsval \<Rightarrow> bool" where
  "entriesOk v = (case v of Arr us \<Rightarrow> list_all (\<lambda>u. \<not> nullish u) us | _ \<Rightarrow> True)"

definition schemaShaped :: "jsval \<Rightarrow> bool" where
  "schemaShaped x =
     (\<not> nullish x \<and> entriesOk (js_get x ''units'') \<and> entriesOk (js_get x ''rentComps''))"

text \<open>The fifteen fields of a defaulted object, and the three of its financing object.\<close>

definition defaultedFields :: "string list" where
  "defaultedFields = [''address'', ''purchasePrice'', ''closingPct'', ''pointsOnLoanPctOfPrice'',
     ''vacancyRate'', ''maintPctOfGrossRent'', ''mgmtPctOfEGI'', ''insuranceAnnual'',
     ''taxesAnnual'', ''otherAnnual'', ''hoaAnnual'', ''utilsAnnualLL'', ''units'', ''financing'',
     ''comps'']"

definition financingFields :: "string list" where
  "financingFields = [''downPct'', ''rateAnnual'', ''termMonths'']"

definition nonEmptyArray :: "jsval \<Rightarrow> bool" where
  "nonEmptyArray v = (case v of Arr us \<Rightarrow> us \<noteq> [] | _ \<Rightarrow> False)"

section \<open>Properties of the defaulting step\<close>

lemmas js_simps = js_nc_def js_or_def js_optget_def unitsOrDefault_def defaultUnits_def

lemmas read_simps = bindE_def readInputs_def readNum_def readInt_def readUnits_def
  readUnit_def readFinancing_def

lemma js_nc_idem: "js_nc (js_nc a b) b = js_nc a b"
  by (simp add: js_nc_def)

lemma js_or_idem: "js_or (js_or a b) b = js_or a b"
  by (simp add: js_or_def)

lemma unitsOrDefault_idem: "unitsOrDefault (unitsOrDefault u) = unitsOrDefault u"
  by (cases u) (simp_all add: unitsOrDefault_def defaultUnits_def)

lemma js_optget_Obj: "js_optget (Obj kvs) k = js_get (Obj kvs) k"
  by (simp add: js_optget_def)

lemma js_nc_not_nullish: "\<not> nullish b \<Longrightarrow> \<not> nullish (js_nc a b)"
  by (simp add: js_nc_def)

lemma js_or_not_nullish: "\<not> nullish b \<Longrightarrow> \<not> nullish (js_or a b)"
  by (cases a) (auto simp: js_or_def)

lemma nonEmptyArray_unitsOrDefault: "nonEmptyArray (unitsOrDefault u)"
  by (cases u) (simp_all add: unitsOrDefault_def defaultUnits_def nonEmptyArray_def)

lemma nonEmptyArray_not_nullish: "nonEmptyArray v \<Longrightarrow> \<not> nullish v"
  by (cases v) (simp_all add: nonEmptyArray_def)

lemma withDefaults_again:
  assumes a: "withDefaults x = Inr d"
  shows "withDefaults d = Inr d"
proof -
  from a have nx: "\<not> nullish x"
    by (auto simp: withDefaults_def split: if_splits)
  from a nx obtain kvs where d: "d = Obj kvs"
    by (auto simp: withDefaults_def)
  have nd: "\<not> nullish d"
    by (simp add: d)
  from a nx show ?thesis
    apply (simp only: withDefaults_def if_False nd sum.inject)
    apply (erule subst)
    apply (simp add: js_nc_idem js_or_idem unitsOrDefault_idem js_optget_Obj)
    done
qed

lemma withDefaults_populated:
  assumes a: "withDefaults x = Inr d"
  shows "list_all (\<lambda>k. \<not> nullish (js_get d k)) defaultedFields"
    and "nonEmptyArray (js_get d ''units'')"
    and "list_all (\<lambda>k. \<not> nullish (js_get (js_get d ''financing'') k)) financingFields"
proof -
  from a have nx: "\<not> nullish x"
    by (auto simp: withDefaults_def split: if_splits)
  note nn = js_nc_not_nullish js_or_not_nullish nonEmptyArray_unitsOrDefault
    nonEmptyArray_not_nullish
  from a nx show "list_all (\<lambda>k. \<not> nullish (js_get d k)) defaultedFields"
    apply (simp only: withDefaults_def if_False sum.inject)
    apply (erule subst)
    apply (simp add: defaultedFields_def nn)
    done
  from a nx show "nonEmptyArray (js_get d ''units'')"
    apply (simp only: withDefaults_def if_False sum.inject)
    apply (erule subst)
    apply (simp add: nn)
    done
  from a nx show "list_all (\<lambda>k. \<not> nullish (js_get (js_get d ''financing'') k)) financingFields"
    apply (simp only: withDefaults_def if_False sum.inject)
    apply (erule subst)
    apply (simp add: financingFields_def nn)
    done
qed

lemma withDefaults_P4: "withDefaults P4_data = Inr P4_defaulted"
  by (simp add: withDefaults_def P4_data_def P4_defaulted_def js_simps)

lemma Report_d_P4: "Report_d P4_data = Inr P4_d"
  by (simp add: Report_d_def withDefaults_def P4_data_def P4_d_def js_simps read_simps)

lemma Report_d_P6: "Report_d P6_data = Inr P6_d"
  by (simp add: Report_d_def withDefaults_def P6_data_def P6_d_def js_simps read_simps)

text \<open>
  C10. The defaulting step is idempotent: on every input object it returns an object,
  and applied to that output it returns it again, because every one of the fifteen fields
  of the output is neither \<^verbatim>\<open>null\<close> nor \<^verbatim>\<open>undefined\<close>, its unit list is a non-empty array
  and its financing object has its three fields.
\<close>

theorem withDefaults_idempotent:
  assumes "\<not> nullish x"
  shows "\<exists>d. withDefaults x = Inr d \<and> withDefaults d = Inr d
    \<and> list_all (\<lambda>k. \<not> nullish (js_get d k)) defaultedFields
    \<and> nonEmptyArray (js_get d ''units'')
    \<and> list_all (\<lambda>k. \<not> nullish (js_get (js_get d ''financing'') k)) financingFields"
proof -
  from assms obtain d where d: "withDefaults x = Inr d"
    by (simp add: withDefaults_def)
  from withDefaults_again [OF d] withDefaults_populated [OF d] d show ?thesis
    by blast
qed

theorem withDefaults_idempotent_witness:
  "\<not> nullish P4_data \<and> withDefaults P4_data = Inr P4_defaulted
   \<and> withDefaults P4_defaulted = Inr P4_defaulted"
proof -
  have n: "\<not> nullish P4_data"
    by (simp add: P4_data_def)
  from withDefaults_idempotent [OF n] obtain d
    where "withDefaults P4_data = Inr d" and "withDefaults d = Inr d"
    by blast
  with withDefaults_P4 n show ?thesis
    by simp
qed

text \<open>
  C2. Given an input with only a unit list and a purchase price, the defaulting step fills
  the documented defaults: closing cost 0.03, points 0.0075, vacancy 0.05, maintenance 0.08,
  management 0.08, down payment 0.25, annual rate 0.077, term 360 months, every annual
  dollar expense 0, and one unit named "Unit A" with rent 0 when the unit list is empty.
  For the units [Unit A at 2000] and the price 500000 the gross scheduled rent is 24000.
\<close>

theorem default_fill:
  "withDefaults (Obj [(''units'', Arr us), (''purchasePrice'', Num p)]) = Inr (Obj [
     (''address'', Str []),
     (''purchasePrice'', Num p),
     (''closingPct'', Num (Fin 0.03)),
     (''pointsOnLoanPctOfPrice'', Num (Fin 0.0075)),
     (''vacancyRate'', Num (Fin 0.05)),
     (''maintPctOfGrossRent'', Num (Fin 0.08)),
     (''mgmtPctOfEGI'', Num (Fin 0.08)),
     (''insuranceAnnual'', Num (Fin 0)),
     (''taxesAnnual'', Num (Fin 0)),
     (''otherAnnual'', Num (Fin 0)),
     (''hoaAnnual'', Num (Fin 0)),
     (''utilsAnnualLL'', Num (Fin 0)),
     (''units'', if us = [] then Arr [Obj [(''name'', Str ''Unit A''), (''rent'', Num (Fin 0))]]
                 else Arr us),
     (''financing'', Obj [(''downPct'', Num (Fin 0.25)), (''rateAnnual'', Num (Fin 0.077)),
                          (''termMonths'', Num (Fin 360))]),
     (''comps'', Arr [])])
   \<and> withDefaults P4_data = Inr P4_defaulted
   \<and> Report_d P4_data = Inr P4_d
   \<and> annualGSR P4_d = 24000"
proof -
  have "annualGSR P4_d = 24000"
    by (simp add: annualGSR_def monthlyRent_def rentOr0_def P4_d_def)
  moreover have "withDefaults (Obj [(''units'', Arr us), (''purchasePrice'', Num p)]) = Inr (Obj [
     (''address'', Str []),
     (''purchasePrice'', Num p),
     (''closingPct'', Num (Fin 0.03)),
     (''pointsOnLoanPctOfPrice'', Num (Fin 0.0075)),
     (''vacancyRate'', Num (Fin 0.05)),
     (''maintPctOfGrossRent'', Num (Fin 0.08)),
     (''mgmtPctOfEGI'', Num (Fin 0.08)),
     (''insuranceAnnual'', Num (Fin 0)),
     (''taxesAnnual'', Num (Fin 0)),
     (''otherAnnual'', Num (Fin 0)),
     (''hoaAnnual'', Num (Fin 0)),
     (''utilsAnnualLL'', Num (Fin 0)),
     (''units'', if us = [] then Arr [Obj [(''name'', Str ''Unit A''), (''rent'', Num (Fin 0))]]
                 else Arr us),
     (''financing'', Obj [(''downPct'', Num (Fin 0.25)), (''rateAnnual'', Num (Fin 0.077)),
                          (''termMonths'', Num (Fin 360))]),
     (''comps'', Arr [])])"
    by (simp add: withDefaults_def js_simps)
  ultimately show ?thesis
    using withDefaults_P4 Report_d_P4 by blast
qed

section \<open>Properties of the income pipeline\<close>

lemma foldl_rents: "foldl (\<lambda>s u. s + rentOr0 u) s us = s + sum_list (map rentOr0 us)"
  by (induction us arbitrary: s) simp_all

lemma rentOr0_eq: "rentOr0 u = (case rent u of None \<Rightarrow> 0 | Some a \<Rightarrow> a)"
  by (simp add: rentOr0_def split: option.splits)

lemma annualGSR_sum:
  "annualGSR d = 12 * (\<Sum>u\<leftarrow>units d. case rent u of None \<Rightarrow> 0 | Some a \<Rightarrow> a)"
proof -
  have "rentOr0 = (\<lambda>u. case rent u of None \<Rightarrow> 0 | Some a \<Rightarrow> a)"
    by (rule ext) (rule rentOr0_eq)
  then show ?thesis
    by (simp add: annualGSR_def monthlyRent_def foldl_rents)
qed

text \<open>
  C1. The income pipeline: the gross scheduled rent is 12 times the sum of the units'
  monthly rents (a missing rent counts 0); the effective gross income is the gross
  scheduled rent times one minus the vacancy rate; the operating expenses are the sum of
  taxes, insurance, HOA, maintenance, management, landlord utilities and other expenses;
  the net operating income is their difference, negative when the expenses are larger.
  For the inputs of P6 the gross scheduled rent is 18000 and the effective gross income
  17100; with taxes of 30000 instead of 3000 the net operating income is -16908.
\<close>

theorem income_pipeline:
  "annualGSR d = 12 * (\<Sum>u\<leftarrow>units d. case rent u of None \<Rightarrow> 0 | Some a \<Rightarrow> a)
   \<and> egi d = annualGSR d * (1 - vacancyRate d)
   \<and> opEx d = taxesAnnual d + insuranceAnnual d + hoaAnnual d
              + annualGSR d * maintPctOfGrossRent d + egi d * mgmtPctOfEGI d
              + utilsAnnualLL d + otherAnnual d
   \<and> noi d = egi d - opEx d
   \<and> Report_d P6_data = Inr P6_d \<and> annualGSR P6_d = 18000 \<and> egi P6_d = 17100
   \<and> noi (P6_d\<lparr>taxesAnnual := 30000\<rparr>) = - 16908"
proof -
  have 2: "egi d = annualGSR d * (1 - vacancyRate d)"
    by (simp add: egi_def vacancy_def algebra_simps)
  have 3: "opEx d = taxesAnnual d + insuranceAnnual d + hoaAnnual d
              + annualGSR d * maintPctOfGrossRent d + egi d * mgmtPctOfEGI d
              + utilsAnnualLL d + otherAnnual d"
    by (simp add: opEx_def maint_def mgmt_def)
  have 4: "noi d = egi d - opEx d"
    by (simp add: noi_def)
  have 5: "annualGSR P6_d = 18000"
    by (simp add: annualGSR_sum) (simp add: P6_d_def)
  have 6: "egi P6_d = 17100"
    by (simp add: egi_def vacancy_def 5) (simp add: P6_d_def)
  have 7: "noi (P6_d\<lparr>taxesAnnual := 30000\<rparr>) = - 16908"
    by (simp add: noi_def opEx_def maint_def mgmt_def egi_def vacancy_def annualGSR_sum)
       (simp add: P6_d_def)
  show ?thesis
    using annualGSR_sum [of d] 2 3 4 5 6 7 Report_d_P6 by blast
qed

text \<open>
  C6. Maintenance is computed from the gross scheduled rent, not from the effective gross
  income: it is the gross scheduled rent times the maintenance fraction, and it does not
  depend on the vacancy rate. Management is computed from the effective gross income: it
  is the effective gross income times the management fraction, and at a vacancy rate of
  0.5 it is half of what it is at a vacancy rate of 0. For the inputs of P4 maintenance is
  1920 at both vacancy rates, and management is 1920 at a vacancy rate of 0 and 960 at
  0.5. A vacancy rate of 0 in the input is kept by the defaulting step, not replaced by
  the default.
\<close>

theorem maintenance_base:
  "maint d = annualGSR d * maintPctOfGrossRent d
   \<and> mgmt d = egi d * mgmtPctOfEGI d
   \<and> annualGSR (d\<lparr>vacancyRate := v\<rparr>) = annualGSR d
   \<and> egi (d\<lparr>vacancyRate := v\<rparr>) = annualGSR d * (1 - v)
   \<and> maint (d\<lparr>vacancyRate := v\<rparr>) = maint d
   \<and> mgmt (d\<lparr>vacancyRate := v\<rparr>) = annualGSR d * (1 - v) * mgmtPctOfEGI d
   \<and> mgmt (d\<lparr>vacancyRate := 1 / 2\<rparr>) = mgmt (d\<lparr>vacancyRate := 0\<rparr>) / 2
   \<and> maint (P4_d\<lparr>vacancyRate := 0\<rparr>) = 1920
   \<and> maint (P4_d\<lparr>vacancyRate := 1 / 2\<rparr>) = 1920
   \<and> mgmt (P4_d\<lparr>vacancyRate := 0\<rparr>) = 1920
   \<and> mgmt (P4_d\<lparr>vacancyRate := 1 / 2\<rparr>) = 960
   \<and> map_sum id (\<lambda>d'. js_get d' ''vacancyRate'')
        (withDefaults (Obj ((''vacancyRate'', Num (Fin 0)) # kvs))) = Inr (Num (Fin 0))"
proof -
  have g: "annualGSR (d\<lparr>vacancyRate := v\<rparr>) = annualGSR d" for d v
    by (simp add: annualGSR_def monthlyRent_def)
  have e: "egi (d\<lparr>vacancyRate := v\<rparr>) = annualGSR d * (1 - v)" for d v
    by (simp add: egi_def vacancy_def g algebra_simps)
  have 1: "maint d = annualGSR d * maintPctOfGrossRent d" for d
    by (simp add: maint_def)
  have 2: "mgmt d = egi d * mgmtPctOfEGI d" for d
    by (simp add: mgmt_def)
  have 3: "maint (d\<lparr>vacancyRate := v\<rparr>) = maint d" for d v
    by (simp add: 1 g)
  have 4: "mgmt (d\<lparr>vacancyRate := v\<rparr>) = annualGSR d * (1 - v) * mgmtPctOfEGI d" for d v
    by (simp add: 2 e)
  have 5: "mgmt (d\<lparr>vacancyRate := 1 / 2\<rparr>) = mgmt (d\<lparr>vacancyRate := 0\<rparr>) / 2"
    by (simp add: 4)
  have p: "annualGSR P4_d = 24000"
    by (simp add: annualGSR_sum) (simp add: P4_d_def)
  have m: "maint P4_d = 1920"
    by (simp add: 1 p) (simp add: P4_d_def)
  have 6: "maint (P4_d\<lparr>vacancyRate := 0\<rparr>) = 1920"
    "maint (P4_d\<lparr>vacancyRate := 1 / 2\<rparr>) = 1920"
    by (simp_all add: 3 m)
  have 7: "mgmt (P4_d\<lparr>vacancyRate := 0\<rparr>) = 1920"
    "mgmt (P4_d\<lparr>vacancyRate := 1 / 2\<rparr>) = 960"
    by (simp_all add: 4 p) (simp_all add: P4_d_def)
  have 8: "map_sum id (\<lambda>d'. js_get d' ''vacancyRate'')
        (withDefaults (Obj ((''vacancyRate'', Num (Fin 0)) # kvs))) = Inr (Num (Fin 0))"
    by (simp add: withDefaults_def js_nc_def)
  show ?thesis
    using 1 [where d = d] 2 [where d = d] g [where d = d and v = v] e [where d = d and v = v]
      3 [where d = d and v = v] 4 [where d = d and v = v] 5 6 7 8
    by blast
qed

section \<open>Properties of the amortization and the ratios\<close>

lemma Report_d_ZeroRate: "Report_d ZeroRate_data = Inr ZeroRate_d"
  by (simp add: Report_d_def withDefaults_def ZeroRate_data_def ZeroRate_d_def P4_d_def
      js_simps read_simps)

lemma Report_d_AllCash: "Report_d AllCash_data = Inr AllCash_d"
  by (simp add: Report_d_def withDefaults_def AllCash_data_def AllCash_d_def P4_d_def
      js_simps read_simps)

lemma Report_d_ZeroPrice: "Report_d ZeroPrice_data = Inr ZeroPrice_d"
  by (simp add: Report_d_def withDefaults_def ZeroPrice_data_def ZeroPrice_d_def P4_d_def
      js_simps read_simps)

lemma js_pow_powi: "b \<noteq> 0 \<Longrightarrow> js_pow b e = Fin (b powi e)"
  by (auto simp: js_pow_def power_int_def field_simps power_inverse)

lemma powi_ne_1:
  fixes b :: real
  assumes b: "1 < b" and e: "e \<noteq> 0"
  shows "b powi e \<noteq> 1"
proof (cases "0 < e")
  case True
  then have "1 < b ^ nat e" using b by (intro one_less_power) auto
  then show ?thesis using True by (simp add: power_int_def)
next
  case False
  with e have n: "e < 0" by simp
  then have "1 < b ^ nat (- e)" using b by (intro one_less_power) auto
  then have "b ^ nat (- e) \<noteq> 1" by simp
  then show ?thesis using n by (simp add: power_int_def power_inverse)
qed

lemma monthlyPI_formula:
  assumes r: "0 < rateAnnual (financing d)" and n: "termMonths (financing d) \<noteq> 0"
  shows "monthlyPI d =
    Fin (loanAmount d * (rateAnnual (financing d) / 12)
         / (1 - (1 + rateAnnual (financing d) / 12) powi (- termMonths (financing d))))"
proof -
  let ?r = "rateAnnual (financing d) / 12"
  let ?n = "termMonths (financing d)"
  have b: "1 < 1 + ?r" using r by simp
  then have p: "js_pow (1 + ?r) (- ?n) = Fin ((1 + ?r) powi (- ?n))"
    by (intro js_pow_powi) simp
  have "(1 + ?r) powi (- ?n) \<noteq> 1"
    using powi_ne_1 [OF b, of "- ?n"] n by simp
  then show ?thesis
    by (simp add: monthlyPI_def Let_def p js_sub_def)
qed

lemma monthlyPI_zero_rate:
  assumes r: "rateAnnual (financing d) = 0"
  shows "monthlyPI d = NaN"
  by (simp add: monthlyPI_def Let_def r js_pow_def js_sub_def)

lemma monthlyPI_no_loan:
  assumes l: "loanAmount d = 0"
    and r: "0 < rateAnnual (financing d)" and n: "termMonths (financing d) \<noteq> 0"
  shows "monthlyPI d = Fin 0"
  by (simp only: monthlyPI_formula [OF r n] l mult_zero_left div_0)

text \<open>
  C3 as stated fails: with an annual rate of 0 the monthly payment is not the straight-line
  value (the loan amount divided by the term) but \<^verbatim>\<open>NaN\<close>.
\<close>

theorem zero_rate_counterexample:
  "Report_d ZeroRate_data = Inr ZeroRate_d
   \<and> rateAnnual (financing ZeroRate_d) / 12 = 0
   \<and> monthlyPI ZeroRate_d = NaN
   \<and> monthlyPI ZeroRate_d \<noteq> Fin (loanAmount ZeroRate_d / of_int (termMonths (financing ZeroRate_d)))"
proof -
  have r: "rateAnnual (financing ZeroRate_d) = 0"
    by (simp add: ZeroRate_d_def)
  have "monthlyPI ZeroRate_d = NaN"
    by (rule monthlyPI_zero_rate) (rule r)
  then show ?thesis
    using Report_d_ZeroRate r by simp
qed

text \<open>
  C3, amended. With an annual rate of 0 the monthly principal-and-interest payment is
  \<^verbatim>\<open>NaN\<close> (the source applies the amortization formula without a guard). With a
  positive rate and a term other than 0 it is the loan amount times the monthly rate,
  divided by one minus (one plus the monthly rate) to the power minus the term.
\<close>

theorem monthlyPI_cases:
  "(rateAnnual (financing d) = 0 \<longrightarrow> monthlyPI d = NaN)
   \<and> (0 < rateAnnual (financing d) \<and> termMonths (financing d) \<noteq> 0 \<longrightarrow>
        monthlyPI d =
          Fin (loanAmount d * (rateAnnual (financing d) / 12)
               / (1 - (1 + rateAnnual (financing d) / 12) powi (- termMonths (financing d)))))"
  using monthlyPI_zero_rate [of d] monthlyPI_formula [of d] by blast

theorem monthlyPI_cases_witness:
  "rateAnnual (financing ZeroRate_d) = 0 \<and> monthlyPI ZeroRate_d = NaN
   \<and> 0 < rateAnnual (financing P6_d) \<and> termMonths (financing P6_d) \<noteq> 0
   \<and> monthlyPI P6_d =
        Fin (loanAmount P6_d * (rateAnnual (financing P6_d) / 12)
             / (1 - (1 + rateAnnual (financing P6_d) / 12) powi (- termMonths (financing P6_d))))"
proof -
  have 1: "rateAnnual (financing ZeroRate_d) = 0"
    by (simp add: ZeroRate_d_def)
  have 2: "0 < rateAnnual (financing P6_d)"
    by (simp add: P6_d_def)
  have 3: "termMonths (financing P6_d) \<noteq> 0"
    by (simp add: P6_d_def)
  show ?thesis
    using monthlyPI_cases [of ZeroRate_d] monthlyPI_cases [of P6_d] 1 2 3 by blast
qed

lemma noi_AllCash: "noi AllCash_d = 19056"
  by (simp add: noi_def opEx_def maint_def mgmt_def egi_def vacancy_def annualGSR_sum)
     (simp add: AllCash_d_def P4_d_def)

lemma noi_ZeroPrice: "noi ZeroPrice_d = 19056"
  by (simp add: noi_def opEx_def maint_def mgmt_def egi_def vacancy_def annualGSR_sum)
     (simp add: ZeroPrice_d_def P4_d_def)

lemma ads_AllCash: "annualDebtService AllCash_d = Fin 0"
proof -
  have "monthlyPI AllCash_d = Fin 0"
    by (rule monthlyPI_no_loan) (simp_all add: loanAmount_def AllCash_d_def P4_d_def)
  then show ?thesis
    by (simp add: annualDebtService_def)
qed

text \<open>
  C4 as stated fails: for an all-cash purchase the annual debt service is 0 and the debt
  service coverage ratio is \<^verbatim>\<open>Infinity\<close>; for a purchase price of 0 the total cost is 0
  and the cap rate is \<^verbatim>\<open>Infinity\<close>.
\<close>

theorem zero_denominator_counterexample:
  "Report_d AllCash_data = Inr AllCash_d
   \<and> annualDebtService AllCash_d = Fin 0 \<and> dscr AllCash_d = PosInf
   \<and> Report_d ZeroPrice_data = Inr ZeroPrice_d
   \<and> totalCost ZeroPrice_d = 0 \<and> capRate ZeroPrice_d = PosInf"
proof -
  have 1: "dscr AllCash_d = PosInf"
    by (simp add: dscr_def ads_AllCash noi_AllCash)
  have 2: "totalCost ZeroPrice_d = 0"
    by (simp add: totalCost_def closingCost_def ZeroPrice_d_def)
  have 3: "capRate ZeroPrice_d = PosInf"
    by (simp add: capRate_def 2 noi_ZeroPrice)
  show ?thesis
    using 1 2 3 ads_AllCash Report_d_AllCash Report_d_ZeroPrice by blast
qed

lemma js_div_zero:
  "\<not> is_finite (js_div (Fin a) (Fin 0)) \<and> (js_div (Fin a) (Fin 0) = NaN \<longleftrightarrow> a = 0)"
  by (simp add: is_finite_def)

text \<open>
  C4, amended. With an annual debt service of 0 the debt service coverage ratio is not a
  finite number: it is \<^verbatim>\<open>NaN\<close> when the net operating income is 0 and an infinity
  otherwise. The same holds for the cap rate when the total cost is 0.
\<close>

theorem zero_denominator:
  "(annualDebtService d = Fin 0 \<longrightarrow>
      \<not> is_finite (dscr d) \<and> (dscr d = NaN \<longleftrightarrow> noi d = 0))
   \<and> (totalCost d = 0 \<longrightarrow>
      \<not> is_finite (capRate d) \<and> (capRate d = NaN \<longleftrightarrow> noi d = 0))"
  using js_div_zero [of "noi d"] by (simp add: dscr_def capRate_def)

theorem zero_denominator_witness:
  "annualDebtService AllCash_d = Fin 0 \<and> \<not> is_finite (dscr AllCash_d)
   \<and> dscr AllCash_d \<noteq> NaN
   \<and> totalCost ZeroPrice_d = 0 \<and> \<not> is_finite (capRate ZeroPrice_d)
   \<and> capRate ZeroPrice_d \<noteq> NaN"
proof -
  have 2: "totalCost ZeroPrice_d = 0"
    by (simp add: totalCost_def closingCost_def ZeroPrice_d_def)
  show ?thesis
    using zero_denominator [of AllCash_d] zero_denominator [of ZeroPrice_d]
      ads_AllCash 2 noi_AllCash noi_ZeroPrice by simp
qed

section \<open>The payment of the amortization example\<close>

lemma sq_step:
  fixes x :: real
  assumes b: "l \<le> x ^ k \<and> x ^ k \<le> u" and l0: "0 \<le> l"
    and lo: "lo \<le> l * l" and hi: "u * u \<le> hi"
  shows "lo \<le> x ^ (2 * k) \<and> x ^ (2 * k) \<le> hi"
proof -
  have e: "x ^ (2 * k) = x ^ k * x ^ k"
    by (simp add: mult_2 power_add)
  have "l * l \<le> x ^ k * x ^ k"
    using b l0 by (intro mult_mono) auto
  moreover have "x ^ k * x ^ k \<le> u * u"
    using b l0 by (intro mult_mono) auto
  ultimately show ?thesis
    using lo hi e by linarith
qed

lemma mul_step:
  fixes x :: real
  assumes b1: "l1 \<le> x ^ j \<and> x ^ j \<le> u1" and b2: "l2 \<le> x ^ k \<and> x ^ k \<le> u2"
    and l0: "0 \<le> l1" "0 \<le> l2"
    and lo: "lo \<le> l1 * l2" and hi: "u1 * u2 \<le> hi"
  shows "lo \<le> x ^ (j + k) \<and> x ^ (j + k) \<le> hi"
proof -
  have "l1 * l2 \<le> x ^ j * x ^ k"
    using b1 b2 l0 by (intro mult_mono) auto
  moreover have "x ^ j * x ^ k \<le> u1 * u2"
    using b1 b2 l0 by (intro mult_mono) auto
  ultimately show ?thesis
    using lo hi by (simp add: power_add)
qed

lemma growth360:
  fixes a :: real
  assumes a: "a = 12077 / 12000"
  shows "10.000352094035 \<le> a ^ 360 \<and> a ^ 360 \<le> 10.000352097473"
proof -
  have b2: "1.012874506944 \<le> a ^ 2 \<and> a ^ 2 \<le> 1.012874506945"
    by (simp add: a power2_eq_square)
  have b4: "1.025914766817 \<le> a ^ 4 \<and> a ^ 4 \<le> 1.025914766820"
    using sq_step [OF b2, where lo = "1.025914766817" and hi = "1.025914766820"] by simp
  have b8: "1.052501108773 \<le> a ^ 8 \<and> a ^ 8 \<le> 1.052501108780"
    using sq_step [OF b4, where lo = "1.052501108773" and hi = "1.052501108780"] by simp
  have b16: "1.107758583968 \<le> a ^ 16 \<and> a ^ 16 \<le> 1.107758583984"
    using sq_step [OF b8, where lo = "1.107758583968" and hi = "1.107758583984"] by simp
  have b32: "1.227129080354 \<le> a ^ 32 \<and> a ^ 32 \<le> 1.227129080391"
    using sq_step [OF b16, where lo = "1.227129080354" and hi = "1.227129080391"] by simp
  have b64: "1.505845779850 \<le> a ^ 64 \<and> a ^ 64 \<le> 1.505845779942"
    using sq_step [OF b32, where lo = "1.505845779850" and hi = "1.505845779942"] by simp
  have b128: "2.267571512692 \<le> a ^ 128 \<and> a ^ 128 \<le> 2.267571512970"
    using sq_step [OF b64, where lo = "2.267571512692" and hi = "2.267571512970"] by simp
  have b256: "5.141880565172 \<le> a ^ 256 \<and> a ^ 256 \<le> 5.141880566434"
    using sq_step [OF b128, where lo = "5.141880565172" and hi = "5.141880566434"] by simp
  have b320: "7.742879149556 \<le> a ^ 320 \<and> a ^ 320 \<le> 7.742879151931"
    using mul_step [OF b256 b64, where lo = "7.742879149556" and hi = "7.742879151931"] by simp
  have b352: "9.501512170086 \<le> a ^ 352 \<and> a ^ 352 \<le> 9.501512173288"
    using mul_step [OF b320 b32, where lo = "9.501512170086" and hi = "9.501512173288"] by simp
  show ?thesis
    using mul_step [OF b352 b8, where lo = "10.000352094035" and hi = "10.000352097473"] by simp
qed

lemma payment_bounds:
  fixes A c :: real
  assumes A: "1 < A" and lo: "lo * (A - 1) \<le> c * A" and hi: "c * A \<le> hi * (A - 1)"
  shows "lo \<le> c / (1 - inverse A) \<and> c / (1 - inverse A) \<le> hi"
proof -
  have e: "c / (1 - inverse A) = c * A / (A - 1)"
    using A by (simp add: field_simps)
  have p: "0 < A - 1" using A by simp
  show ?thesis
    unfolding e using lo hi p by (simp add: pos_le_divide_eq pos_divide_le_eq)
qed

lemma monthlyPI_P3:
  assumes l: "loanAmount d = 375000" and r: "rateAnnual (financing d) = 0.077"
    and n: "termMonths (financing d) = 360"
  shows "\<exists>p. monthlyPI d = Fin p \<and> 2673.5995 \<le> p \<and> p \<le> 2673.6015"
proof -
  define a :: real where "a = 12077 / 12000"
  define A :: real where "A = a ^ 360"
  have ra: "1 + rateAnnual (financing d) / 12 = a"
    by (simp add: r a_def)
  have c: "loanAmount d * (rateAnnual (financing d) / 12) = 2406.25"
    by (simp add: l r)
  have pw: "a powi (- 360) = inverse A"
    by (simp add: power_int_minus A_def)
  have "monthlyPI d =
    Fin (loanAmount d * (rateAnnual (financing d) / 12)
         / (1 - (1 + rateAnnual (financing d) / 12) powi (- termMonths (financing d))))"
    by (rule monthlyPI_formula) (simp_all add: r n)
  then have m: "monthlyPI d = Fin (2406.25 / (1 - inverse A))"
    by (simp only: ra c n pw)
  from growth360 [OF a_def] have g: "10.000352094035 \<le> A" "A \<le> 10.000352097473"
    unfolding A_def by blast+
  have "2673.5995 \<le> 2406.25 / (1 - inverse A) \<and> 2406.25 / (1 - inverse A) \<le> 2673.6015"
  proof (rule payment_bounds)
    show "1 < A" using g by simp
    show "2673.5995 * (A - 1) \<le> 2406.25 * A" using g by (simp add: algebra_simps)
    show "2406.25 * A \<le> 2673.6015 * (A - 1)" using g by (simp add: algebra_simps)
  qed
  with m show ?thesis by blast
qed

lemma tol_P3:
  fixes p :: real
  assumes b: "2673.5995 \<le> p" "p \<le> 2673.6015"
  shows "\<bar>p - 2673.60\<bar> \<le> 0.01" and "\<not> \<bar>p - 2676.45\<bar> \<le> 0.01"
proof -
  have "p - 2673.60 \<le> 0.01" "- (p - 2673.60) \<le> 0.01"
    using b by simp_all
  then show "\<bar>p - 2673.60\<bar> \<le> 0.01"
    by (rule abs_leI)
  have "0.01 < - (p - 2676.45)"
    using b by simp
  also have "\<dots> \<le> \<bar>p - 2676.45\<bar>"
    by (rule abs_ge_minus_self)
  finally show "\<not> \<bar>p - 2676.45\<bar> \<le> 0.01"
    by (simp only: not_le)
qed

text \<open>
  C5, amended. For a loan amount of 375000, an annual rate of 0.077 and a term of 360 months
  the monthly principal-and-interest payment is 2673.60, to within 0.01.
\<close>

theorem amortization_P3:
  assumes "loanAmount d = 375000" and "rateAnnual (financing d) = 0.077"
    and "termMonths (financing d) = 360"
  shows "within_tol (monthlyPI d) 2673.60 0.01"
proof -
  from monthlyPI_P3 [OF assms] obtain p
    where m: "monthlyPI d = Fin p" and b: "2673.5995 \<le> p" "p \<le> 2673.6015" by blast
  from m tol_P3(1) [OF b] show ?thesis
    by (simp add: within_tol_def)
qed

lemma P4_d_P3:
  "loanAmount P4_d = 375000" "rateAnnual (financing P4_d) = 0.077"
  "termMonths (financing P4_d) = 360"
  by (simp_all add: loanAmount_def P4_d_def)

theorem amortization_P3_witness:
  "loanAmount P4_d = 375000 \<and> rateAnnual (financing P4_d) = 0.077
   \<and> termMonths (financing P4_d) = 360 \<and> within_tol (monthlyPI P4_d) 2673.60 0.01"
  using amortization_P3 [OF P4_d_P3] P4_d_P3 by blast

text \<open>
  C5 as stated fails: for the inputs of P4, whose loan amount is 375000 at the default rate
  and term, the payment is not within 0.01 of 2676.45.
\<close>

theorem amortization_P3_counterexample:
  "Report_d P4_data = Inr P4_d
   \<and> loanAmount P4_d = 375000 \<and> rateAnnual (financing P4_d) = 0.077
   \<and> termMonths (financing P4_d) = 360
   \<and> \<not> within_tol (monthlyPI P4_d) 2676.45 0.01"
proof -
  from monthlyPI_P3 [OF P4_d_P3] obtain p
    where m: "monthlyPI P4_d = Fin p" and b: "2673.5995 \<le> p" "p \<le> 2673.6015" by blast
  from m tol_P3(2) [OF b] have "\<not> within_tol (monthlyPI P4_d) 2676.45 0.01"
    by (simp add: within_tol_def)
  then show ?thesis
    using Report_d_P4 P4_d_P3 by blast
qed

section \<open>Properties of the normalization step\<close>

lemma mapFromSchema_Schema: "mapFromSchema (\<lambda>v. []) Schema_data = Inr Schema_mapped"
  by (simp add: mapFromSchema_def mapUnits_def mapComps_def mapUnit_def Schema_data_def
      Schema_mapped_def pctToDec_def yearsToMonths_def bindE_def js_simps)

lemma withDefaults_Schema: "withDefaults Schema_mapped = Inr Schema_defaulted"
  by (simp add: withDefaults_def Schema_mapped_def Schema_defaulted_def js_simps)

lemma pctToDec_spec: "pctToDec v (Fin c) = fractionOrDefault v c"
  by (simp add: pctToDec_def fractionOrDefault_def)

lemma yearsToMonths_spec: "yearsToMonths y (Fin 30) = monthsOrDefault y"
  by (cases y) (simp_all add: yearsToMonths_def monthsOrDefault_def)

lemma js_nc_fraction: "js_nc (fractionOrDefault v c) b = fractionOrDefault v c"
  by (cases v) (simp_all add: fractionOrDefault_def js_nc_def)

lemma js_nc_months: "js_nc (monthsOrDefault v) b = monthsOrDefault v"
  by (cases v) (simp_all add: monthsOrDefault_def js_nc_def)

lemma mapFromSchema_fields:
  assumes a: "mapFromSchema toStr x = Inr m"
  shows "js_get m ''vacancyRate''
           = fractionOrDefault (js_optget (js_get x ''operatingAssumptions'') ''vacancyPct'') 0.05"
    and "js_get m ''maintPctOfGrossRent''
           = fractionOrDefault (js_optget (js_get x ''operatingAssumptions'') ''maintenancePctOfGrossRent'') 0.08"
    and "js_get m ''mgmtPctOfEGI''
           = fractionOrDefault (js_optget (js_get x ''operatingAssumptions'') ''managementPctOfEGI'') 0.08"
    and "js_get m ''financing'' = Obj [
           (''downPct'', fractionOrDefault (js_optget (js_get x ''financing'') ''downPaymentPct'') 0.25),
           (''rateAnnual'', fractionOrDefault (js_optget (js_get x ''financing'') ''rateAnnualPct'') 0.077),
           (''termMonths'', monthsOrDefault (js_optget (js_get x ''financing'') ''termYears''))]"
proof -
  from a have nx: "\<not> nullish x"
    by (auto simp: mapFromSchema_def split: if_splits)
  from a nx obtain u where u: "mapUnits x = Inr u"
    by (cases "mapUnits x") (simp_all add: mapFromSchema_def bindE_def)
  from a nx u obtain c where c: "mapComps toStr x = Inr c"
    by (cases "mapComps toStr x") (simp_all add: mapFromSchema_def bindE_def)
  note e = a [unfolded mapFromSchema_def bindE_def u c, simplified nx if_False sum.case sum.inject]
  show "js_get m ''vacancyRate''
           = fractionOrDefault (js_optget (js_get x ''operatingAssumptions'') ''vacancyPct'') 0.05"
    by (rule subst [OF e]) (simp add: pctToDec_spec)
  show "js_get m ''maintPctOfGrossRent''
           = fractionOrDefault (js_optget (js_get x ''operatingAssumptions'') ''maintenancePctOfGrossRent'') 0.08"
    by (rule subst [OF e]) (simp add: pctToDec_spec)
  show "js_get m ''mgmtPctOfEGI''
           = fractionOrDefault (js_optget (js_get x ''operatingAssumptions'') ''managementPctOfEGI'') 0.08"
    by (rule subst [OF e]) (simp add: pctToDec_spec)
  show "js_get m ''financing'' = Obj [
           (''downPct'', fractionOrDefault (js_optget (js_get x ''financing'') ''downPaymentPct'') 0.25),
           (''rateAnnual'', fractionOrDefault (js_optget (js_get x ''financing'') ''rateAnnualPct'') 0.077),
           (''termMonths'', monthsOrDefault (js_optget (js_get x ''financing'') ''termYears''))]"
    by (rule subst [OF e]) (simp add: pctToDec_spec yearsToMonths_spec)
qed

lemma withDefaults_fields:
  assumes a: "withDefaults m = Inr d"
  shows "js_get d ''vacancyRate'' = js_nc (js_get m ''vacancyRate'') (Num (Fin 0.05))"
    and "js_get d ''maintPctOfGrossRent'' = js_nc (js_get m ''maintPctOfGrossRent'') (Num (Fin 0.08))"
    and "js_get d ''mgmtPctOfEGI'' = js_nc (js_get m ''mgmtPctOfEGI'') (Num (Fin 0.08))"
    and "js_get d ''financing'' = Obj [
           (''downPct'', js_nc (js_optget (js_get m ''financing'') ''downPct'') (Num (Fin 0.25))),
           (''rateAnnual'', js_nc (js_optget (js_get m ''financing'') ''rateAnnual'') (Num (Fin 0.077))),
           (''termMonths'', js_nc (js_optget (js_get m ''financing'') ''termMonths'') (Num (Fin 360)))]"
proof -
  from a have nm: "\<not> nullish m"
    by (auto simp: withDefaults_def split: if_splits)
  note e = a [unfolded withDefaults_def, simplified nm if_False sum.inject]
  show "js_get d ''vacancyRate'' = js_nc (js_get m ''vacancyRate'') (Num (Fin 0.05))"
    by (rule subst [OF e]) simp
  show "js_get d ''maintPctOfGrossRent'' = js_nc (js_get m ''maintPctOfGrossRent'') (Num (Fin 0.08))"
    by (rule subst [OF e]) simp
  show "js_get d ''mgmtPctOfEGI'' = js_nc (js_get m ''mgmtPctOfEGI'') (Num (Fin 0.08))"
    by (rule subst [OF e]) simp
  show "js_get d ''financing'' = Obj [
           (''downPct'', js_nc (js_optget (js_get m ''financing'') ''downPct'') (Num (Fin 0.25))),
           (''rateAnnual'', js_nc (js_optget (js_get m ''financing'') ''rateAnnual'') (Num (Fin 0.077))),
           (''termMonths'', js_nc (js_optget (js_get m ''financing'') ''termMonths'') (Num (Fin 360)))]"
    by (rule subst [OF e]) simp
qed

lemma mapE_mapUnit: "list_all (\<lambda>u. \<not> nullish u) us \<Longrightarrow> \<exists>l. mapE mapUnit us = Inr l"
  by (induction us) (auto simp: mapUnit_def bindE_def)

lemma mapE_mapComp: "list_all (\<lambda>u. \<not> nullish u) cs \<Longrightarrow> \<exists>l. mapE (mapComp toStr) cs = Inr l"
  by (induction cs) (auto simp: mapComp_def bindE_def)

lemma mapFromSchema_total:
  assumes "schemaShaped x"
  shows "\<exists>m d. mapFromSchema toStr x = Inr m \<and> withDefaults m = Inr d"
proof -
  from assms have nx: "\<not> nullish x"
    and eu: "entriesOk (js_get x ''units'')" and ec: "entriesOk (js_get x ''rentComps'')"
    by (simp_all add: schemaShaped_def)
  have "\<exists>u. mapUnits x = Inr u"
  proof (cases "js_get x ''units''")
    case (Arr us)
    with eu have "list_all (\<lambda>u. \<not> nullish u) us"
      by (simp add: entriesOk_def)
    from mapE_mapUnit [OF this] obtain l where "mapE mapUnit us = Inr l" ..
    then show ?thesis
      by (simp add: mapUnits_def Arr bindE_def)
  qed (simp_all add: mapUnits_def)
  then obtain u where u: "mapUnits x = Inr u" ..
  have "\<exists>c. mapComps toStr x = Inr c"
  proof (cases "js_get x ''rentComps''")
    case (Arr cs)
    with ec have "list_all (\<lambda>u. \<not> nullish u) cs"
      by (simp add: entriesOk_def)
    from mapE_mapComp [OF this] obtain l where "mapE (mapComp toStr) cs = Inr l" ..
    then show ?thesis
      by (simp add: mapComps_def Arr bindE_def)
  qed (simp_all add: mapComps_def)
  then obtain c where c: "mapComps toStr x = Inr c" ..
  from nx u c obtain kvs where m: "mapFromSchema toStr x = Inr (Obj kvs)"
    by (simp add: mapFromSchema_def bindE_def)
  then show ?thesis
    by (simp add: withDefaults_def)
qed

text \<open>
  C7. The normalization step runs before the calculator and turns the whole-number
  percentages of the upstream contract into fractions: on every report whose unit and
  comparable entries are objects it returns, and the calculator receives
  \<open>n / 100\<close> when \<^verbatim>\<open>vacancyPct\<close>, \<^verbatim>\<open>maintenancePctOfGrossRent\<close>, \<^verbatim>\<open>managementPctOfEGI\<close>,
  \<^verbatim>\<open>downPaymentPct\<close> or \<^verbatim>\<open>rateAnnualPct\<close> is a number \<open>n\<close>, and the default (0.05, 0.08,
  0.08, 0.25, 0.077) when it is absent or not a number; \<^verbatim>\<open>termYears\<close> \<open>y\<close> becomes
  \<open>12 * y\<close> months, 360 months when absent.
\<close>

theorem normalization:
  assumes "schemaShaped x"
  shows "\<exists>m d. mapFromSchema toStr x = Inr m \<and> withDefaults m = Inr d
    \<and> js_get d ''vacancyRate''
           = fractionOrDefault (js_optget (js_get x ''operatingAssumptions'') ''vacancyPct'') 0.05
    \<and> js_get d ''maintPctOfGrossRent''
           = fractionOrDefault (js_optget (js_get x ''operatingAssumptions'') ''maintenancePctOfGrossRent'') 0.08
    \<and> js_get d ''mgmtPctOfEGI''
           = fractionOrDefault (js_optget (js_get x ''operatingAssumptions'') ''managementPctOfEGI'') 0.08
    \<and> js_get (js_get d ''financing'') ''downPct''
           = fractionOrDefault (js_optget (js_get x ''financing'') ''downPaymentPct'') 0.25
    \<and> js_get (js_get d ''financing'') ''rateAnnual''
           = fractionOrDefault (js_optget (js_get x ''financing'') ''rateAnnualPct'') 0.077
    \<and> js_get (js_get d ''financing'') ''termMonths''
           = monthsOrDefault (js_optget (js_get x ''financing'') ''termYears'')"
proof -
  from mapFromSchema_total [OF assms] obtain m d
    where m: "mapFromSchema toStr x = Inr m" and d: "withDefaults m = Inr d"
    by blast
  have "js_get d ''vacancyRate''
           = fractionOrDefault (js_optget (js_get x ''operatingAssumptions'') ''vacancyPct'') 0.05
    \<and> js_get d ''maintPctOfGrossRent''
           = fractionOrDefault (js_optget (js_get x ''operatingAssumptions'') ''maintenancePctOfGrossRent'') 0.08
    \<and> js_get d ''mgmtPctOfEGI''
           = fractionOrDefault (js_optget (js_get x ''operatingAssumptions'') ''managementPctOfEGI'') 0.08
    \<and> js_get (js_get d ''financing'') ''downPct''
           = fractionOrDefault (js_optget (js_get x ''financing'') ''downPaymentPct'') 0.25
    \<and> js_get (js_get d ''financing'') ''rateAnnual''
           = fractionOrDefault (js_optget (js_get x ''financing'') ''rateAnnualPct'') 0.077
    \<and> js_get (js_get d ''financing'') ''termMonths''
           = monthsOrDefault (js_optget (js_get x ''financing'') ''termYears'')"
    by (simp add: withDefaults_fields [OF d] mapFromSchema_fields [OF m] js_nc_fraction
        js_nc_months js_optget_Obj)
  with m d show ?thesis
    by blast
qed

lemma schemaShaped_Schema: "schemaShaped Schema_data"
  by (simp add: schemaShaped_def entriesOk_def Schema_data_def)

theorem normalization_witness:
  "schemaShaped Schema_data
   \<and> mapFromSchema (\<lambda>v. []) Schema_data = Inr Schema_mapped
   \<and> withDefaults Schema_mapped = Inr Schema_defaulted
   \<and> js_get Schema_defaulted ''vacancyRate'' = Num (Fin 0.05)
   \<and> js_get Schema_defaulted ''maintPctOfGrossRent'' = Num (Fin 0.1)
   \<and> js_get Schema_defaulted ''mgmtPctOfEGI'' = Num (Fin 0.08)
   \<and> js_get (js_get Schema_defaulted ''financing'') ''downPct'' = Num (Fin 0.2)
   \<and> js_get (js_get Schema_defaulted ''financing'') ''rateAnnual'' = Num (Fin 0.077)
   \<and> js_get (js_get Schema_defaulted ''financing'') ''termMonths'' = Num (Fin 180)"
  using normalization [OF schemaShaped_Schema, of "\<lambda>v. []"]
    mapFromSchema_Schema withDefaults_Schema schemaShaped_Schema
  by (simp add: Schema_data_def fractionOrDefault_def monthsOrDefault_def js_optget_def)

section \<open>Properties of the report schema\<close>

lemma flat_forbidsExtra: "forbidsExtra 8 doc PROPERTY_REPORT_JSON_SCHEMA"
  by (simp add: PROPERTY_REPORT_JSON_SCHEMA_def acceptsObject_def eval_nat_numeral)

lemma flat_keys:
  "requiredKeys PROPERTY_REPORT_JSON_SCHEMA = topLevelKeys"
  "propertyNames PROPERTY_REPORT_JSON_SCHEMA = topLevelKeys"
  by (simp_all add: PROPERTY_REPORT_JSON_SCHEMA_def requiredKeys_def propertyNames_def
      topLevelKeys_def)

lemma flat_minItems:
  "js_get (subschema PROPERTY_REPORT_JSON_SCHEMA ''units'') ''minItems'' = Num (Fin 1)"
  "js_get (subschema PROPERTY_REPORT_JSON_SCHEMA ''rentComps'') ''minItems'' = Num (Fin 5)"
  by (simp_all add: PROPERTY_REPORT_JSON_SCHEMA_def subschema_def)

lemma flat_sensitivity:
  "requiredKeys (subschema PROPERTY_REPORT_JSON_SCHEMA ''sensitivity'') = scenarioNames"
  "propertyNames (subschema PROPERTY_REPORT_JSON_SCHEMA ''sensitivity'') = scenarioNames"
  "list_all (\<lambda>k. scenarioShape doc (subschema (subschema PROPERTY_REPORT_JSON_SCHEMA ''sensitivity'') k))
     scenarioNames"
  by (simp_all add: PROPERTY_REPORT_JSON_SCHEMA_def subschema_def requiredKeys_def
      propertyNames_def scenarioNames_def scenarioFields_def scenarioShape_def deref_def)

lemma flat_contract: "contract PROPERTY_REPORT_JSON_SCHEMA"
  unfolding contract_def
  using flat_forbidsExtra flat_keys flat_minItems flat_sensitivity by blast

lemma forbidsExtra_property:
  assumes f: "forbidsExtra (Suc m) doc s" and r: "js_get s ''$ref'' = Undefined"
    and a: "acceptsObject s" and k: "subschema s k \<noteq> Undefined"
  shows "forbidsExtra m doc (subschema s k)"
proof -
  from k obtain kvs where p: "js_get s ''properties'' = Obj kvs"
    by (cases "js_get s ''properties''") (simp_all add: subschema_def)
  with k obtain t where t: "map_of kvs k = Some t"
    by (cases "map_of kvs k") (simp_all add: subschema_def)
  then have m: "(k, t) \<in> set kvs"
    by (rule map_of_SomeD)
  from f r a p have "list_all (\<lambda>kv. forbidsExtra m doc (snd kv)) kvs"
    by simp
  with m have "forbidsExtra m doc t"
    by (auto simp: list_all_iff)
  with p t show ?thesis
    by (simp add: subschema_def)
qed

lemma doc_root:
  "js_get REPORT_SCHEMA_doc ''$ref'' = Undefined"
  "acceptsObject REPORT_SCHEMA_doc"
  "js_get REPORT_SCHEMA_doc ''$defs'' = Undefined"
  "requiredKeys REPORT_SCHEMA_doc = topLevelKeys"
  "propertyNames REPORT_SCHEMA_doc = topLevelKeys @ [''$defs'']"
  by (simp_all add: REPORT_SCHEMA_doc_def PROPERTY_REPORT_SCHEMA_def acceptsObject_def
      requiredKeys_def propertyNames_def topLevelKeys_def)

lemma doc_defs:
  "subschema REPORT_SCHEMA_doc ''$defs'' \<noteq> Undefined"
  "js_get (subschema REPORT_SCHEMA_doc ''$defs'') ''$ref'' = Undefined"
  "acceptsObject (subschema REPORT_SCHEMA_doc ''$defs'')"
  "js_get (subschema REPORT_SCHEMA_doc ''$defs'') ''additionalProperties'' = Undefined"
  by (simp_all add: REPORT_SCHEMA_doc_def PROPERTY_REPORT_SCHEMA_def subschema_def
      acceptsObject_def)

lemma doc_baseCase:
  "subschema (subschema REPORT_SCHEMA_doc ''sensitivity'') ''baseCase''
     = Obj [(''$ref'', Str ''#/$defs/sensitivityCase'')]"
  by (simp add: REPORT_SCHEMA_doc_def PROPERTY_REPORT_SCHEMA_def subschema_def)

lemma resolve_defs: "js_get doc ''$defs'' = Undefined \<Longrightarrow> resolveRef doc ''#/$defs/sensitivityCase'' = Undefined"
  by (simp add: resolveRef_def)

lemma doc_not_forbidsExtra: "\<not> forbidsExtra n doc REPORT_SCHEMA_doc"
proof
  assume f: "forbidsExtra n doc REPORT_SCHEMA_doc"
  then obtain m where n: "n = Suc m"
    by (cases n) simp_all
  from forbidsExtra_property [OF f [unfolded n] doc_root(1) doc_root(2) doc_defs(1)]
  have g: "forbidsExtra m doc (subschema REPORT_SCHEMA_doc ''$defs'')" .
  then obtain j where m: "m = Suc j"
    by (cases m) simp_all
  from g [unfolded m] doc_defs(2-4) show False
    by simp
qed

text \<open>
  C8. The schema constant requires exactly the fourteen top-level keys, forbids additional
  properties everywhere, asks for at least one unit and five comparables, and gives each of
  the five sensitivity scenarios the same four required fields. This holds of
  \<^verbatim>\<open>PROPERTY_REPORT_JSON_SCHEMA\<close>. In \<^verbatim>\<open>PROPERTY_REPORT_SCHEMA\<close> the \<^verbatim>\<open>$defs\<close> table stands
  inside \<^verbatim>\<open>properties\<close>: it is a fifteenth permitted property without any constraint, and
  the references \<^verbatim>\<open>#/$defs/...\<close> of the scenarios, the units and the comparables resolve
  to nothing, so the contract fails there.
\<close>

theorem defs_misplaced:
  "requiredKeys REPORT_SCHEMA_doc = topLevelKeys
   \<and> propertyNames REPORT_SCHEMA_doc = topLevelKeys @ [''$defs'']
   \<and> js_get REPORT_SCHEMA_doc ''$defs'' = Undefined
   \<and> resolveRef REPORT_SCHEMA_doc ''#/$defs/sensitivityCase'' = Undefined
   \<and> subschema (subschema REPORT_SCHEMA_doc ''sensitivity'') ''baseCase''
       = Obj [(''$ref'', Str ''#/$defs/sensitivityCase'')]
   \<and> requiredKeys (deref REPORT_SCHEMA_doc
         (subschema (subschema REPORT_SCHEMA_doc ''sensitivity'') ''baseCase'')) = []
   \<and> acceptsObject (subschema REPORT_SCHEMA_doc ''$defs'')
   \<and> js_get (subschema REPORT_SCHEMA_doc ''$defs'') ''additionalProperties'' = Undefined
   \<and> \<not> forbidsExtra n REPORT_SCHEMA_doc REPORT_SCHEMA_doc
   \<and> \<not> contract REPORT_SCHEMA_doc
   \<and> contract PROPERTY_REPORT_JSON_SCHEMA"
proof -
  have r: "resolveRef REPORT_SCHEMA_doc ''#/$defs/sensitivityCase'' = Undefined"
    by (rule resolve_defs) (rule doc_root(3))
  have d: "requiredKeys (deref REPORT_SCHEMA_doc
         (subschema (subschema REPORT_SCHEMA_doc ''sensitivity'') ''baseCase'')) = []"
    by (simp add: doc_baseCase deref_def r requiredKeys_def)
  have c: "\<not> contract REPORT_SCHEMA_doc"
    using doc_not_forbidsExtra by (simp add: contract_def)
  show ?thesis
    using doc_root doc_defs doc_baseCase r d c doc_not_forbidsExtra flat_contract by blast
qed

section \<open>Properties of the store model\<close>

lemma unchanged_iff: "unchanged h k \<longleftrightarrow> (\<exists>new. k = h @ new)"
proof
  assume "unchanged h k"
  then have "k = h @ drop (length h) k"
    by (metis append_take_drop_id unchanged_def)
  then show "\<exists>new. k = h @ new" ..
next
  assume "\<exists>new. k = h @ new"
  then show "unchanged h k"
    by (auto simp: unchanged_def)
qed

lemma unchanged_refl: "unchanged h h"
  by (simp add: unchanged_def)

lemma unchanged_trans: "unchanged h k \<Longrightarrow> unchanged k l \<Longrightarrow> unchanged h l"
  by (auto simp: unchanged_iff)

lemma unchanged_alloc: "alloc h ob = (v, k) \<Longrightarrow> unchanged h k"
  by (auto simp: alloc_def unchanged_iff)

lemma unchanged_nth: "unchanged h k \<Longrightarrow> a < length h \<Longrightarrow> k ! a = h ! a"
  by (auto simp: unchanged_iff nth_append)

lemma unchanged_length: "unchanged h k \<Longrightarrow> length h \<le> length k"
  by (auto simp: unchanged_iff)

lemma wf_val_unchanged: "unchanged h k \<Longrightarrow> wf_val h v \<Longrightarrow> wf_val k v"
  using unchanged_length [of h k] by (cases v) (auto simp: wf_val_def)

lemma h_get_unchanged:
  assumes "unchanged h k" and "wf_val h v"
  shows "h_get k v key = h_get h v key"
proof (cases v)
  case (HRef a)
  with assms have a: "a < length h" "a < length k" "k ! a = h ! a"
    using unchanged_length [of h k] unchanged_nth [of h k a] by (auto simp: wf_val_def)
  show ?thesis
    by (simp add: h_get_def HRef a)
qed (simp_all add: h_get_def)

lemma h_optget_unchanged:
  assumes "unchanged h k" and "wf_val h v"
  shows "h_optget k v key = h_optget h v key"
  by (simp add: h_optget_def h_get_unchanged [OF assms])

lemma h_elems_unchanged:
  assumes "unchanged h k" and "wf_val h v"
  shows "h_elems k v = h_elems h v"
proof (cases v)
  case (HRef a)
  with assms have a: "a < length h" "a < length k" "k ! a = h ! a"
    using unchanged_length [of h k] unchanged_nth [of h k a] by (auto simp: wf_val_def)
  show ?thesis
    by (simp add: h_elems_def HRef a)
qed (simp_all add: h_elems_def)

lemma shallow_nullish: "nullish (shallow v) = h_nullish v"
  by (cases v) simp_all

lemma shallow_truthy: "truthy (shallow v) = h_truthy v"
proof (cases v)
  case (HNum a)
  then show ?thesis by (cases a) simp_all
qed simp_all

lemma shallow_nc: "shallow (h_nc v w) = js_nc (shallow v) (shallow w)"
  by (simp add: h_nc_def js_nc_def shallow_nullish)

lemma shallow_not_Arr: "shallow v \<noteq> Arr l"
  by (cases v) simp_all

lemma reifyUnit_unchanged:
  assumes "unchanged h k" and "wf_val h u"
  shows "reifyUnit k u = reifyUnit h u"
  by (simp add: reifyUnit_def h_get_unchanged [OF assms])

lemma reifyUnits_unchanged:
  assumes u: "unchanged h k" and v: "wf_val h v"
    and e: "case h_elems h v of Some us \<Rightarrow> list_all (wf_val h) us | None \<Rightarrow> True"
  shows "reifyUnits k v = reifyUnits h v"
proof (cases "h_elems h v")
  case None
  then show ?thesis
    by (simp add: reifyUnits_def h_elems_unchanged [OF u v])
next
  case (Some us)
  with e have "list_all (wf_val h) us" by simp
  then have "map (reifyUnit k) us = map (reifyUnit h) us"
    using reifyUnit_unchanged [OF u] by (simp add: list_all_iff)
  then show ?thesis
    by (simp add: reifyUnits_def h_elems_unchanged [OF u v] Some)
qed

lemma reifyFinancing_unchanged:
  assumes "unchanged h k" and "wf_val h f"
  shows "reifyFinancing k f = reifyFinancing h f"
  by (simp add: reifyFinancing_def h_get_unchanged [OF assms])

lemma wf_input_unchanged:
  assumes u: "unchanged h k" and w: "wf_input h x"
  shows "wf_input k x" and "reify k x = reify h x"
proof -
  from w have x: "wf_val h x" and xu: "wf_val h (h_get h x ''units'')"
    and es: "case h_elems h (h_get h x ''units'') of Some us \<Rightarrow> list_all (wf_val h) us | None \<Rightarrow> True"
    and xf: "wf_val h (h_get h x ''financing'')"
    by (simp_all add: wf_input_def)
  have g: "h_get k x key = h_get h x key" for key
    by (rule h_get_unchanged [OF u x])
  have es': "case h_elems h (h_get h x ''units'') of
               Some us \<Rightarrow> list_all (wf_val k) us | None \<Rightarrow> True"
    using es wf_val_unchanged [OF u] by (auto simp: list_all_iff split: option.splits)
  show "wf_input k x"
    using wf_val_unchanged [OF u x] wf_val_unchanged [OF u xu] wf_val_unchanged [OF u xf] es'
    by (simp add: wf_input_def g h_elems_unchanged [OF u xu])
  show "reify k x = reify h x"
    by (simp add: reify_def g reifyUnits_unchanged [OF u xu es] reifyFinancing_unchanged [OF u xf])
qed

lemma readUnit_reify: "readUnit_h h u = readUnit (reifyUnit h u)"
proof (cases "h_nullish u")
  case True
  then show ?thesis
    by (simp add: readUnit_h_def readUnit_def reifyUnit_def shallow_nullish)
next
  case False
  show ?thesis
  proof (cases "h_get h u ''rent''")
    case (HNum a)
    then show ?thesis
      using False by (cases a) (simp_all add: readUnit_h_def readUnit_def reifyUnit_def)
  qed (use False in \<open>simp_all add: readUnit_h_def readUnit_def reifyUnit_def\<close>)
qed

lemma mapE_reify: "mapE (readUnit_h h) us = mapE readUnit (map (reifyUnit h) us)"
  by (induction us) (simp_all add: readUnit_reify)

lemma readUnits_reify: "readUnits_h h v = readUnits (reifyUnits h v)"
proof (cases "h_elems h v")
  case None
  then show ?thesis
    by (cases v) (simp_all add: readUnits_h_def readUnits_def reifyUnits_def)
next
  case (Some us)
  then show ?thesis
    by (simp add: readUnits_h_def readUnits_def reifyUnits_def mapE_reify)
qed

lemma readFinancing_reify: "readFinancing_h h f = readFinancing (reifyFinancing h f)"
  by (simp add: readFinancing_h_def readFinancing_def reifyFinancing_def shallow_nullish)

lemma readInputs_reify:
  assumes "\<not> h_nullish d"
  shows "readInputs_h h d = readInputs (reify h d)"
  using assms
  by (simp add: readInputs_h_def readInputs_def reify_def readUnits_reify readFinancing_reify)

lemma defaultUnits_h_eq:
  "defaultUnits_h h =
     (HRef (Suc (length h)),
      h @ [HObject [(''name'', HStr ''Unit A''), (''rent'', HNum (Fin 0))], HArray [HRef (length h)]])"
  by (simp add: defaultUnits_h_def alloc_def)

lemma unitsOrDefault_h_unchanged:
  assumes "unitsOrDefault_h h u = (v, k)"
  shows "unchanged h k"
  using assms
  by (auto simp: unitsOrDefault_h_def defaultUnits_h_eq unchanged_iff split: option.splits if_splits)

lemma financing_h_unchanged: "financing_h h x = (v, k) \<Longrightarrow> unchanged h k"
  unfolding financing_h_def by (rule unchanged_alloc)

lemma comps_h_unchanged: "comps_h h x = (v, k) \<Longrightarrow> unchanged h k"
  by (auto simp: comps_h_def unchanged_refl split: if_splits dest: unchanged_alloc)

lemma withDefaults_h_parts:
  assumes a: "withDefaults_h h x = Inr (d, h')"
  obtains units' h1 fin h2 comps h3 where
    "\<not> h_nullish x"
    "unitsOrDefault_h h (h_get h x ''units'') = (units', h1)"
    "financing_h h1 x = (fin, h2)"
    "comps_h h2 x = (comps, h3)"
    "d = HRef (length h3)"
    "h' = h3 @ [d_h h x units' fin comps]"
proof -
  from a have nx: "\<not> h_nullish x"
    by (auto simp: withDefaults_h_def split: if_splits)
  obtain units' h1 where u: "unitsOrDefault_h h (h_get h x ''units'') = (units', h1)"
    by (cases "unitsOrDefault_h h (h_get h x ''units'')")
  obtain fin h2 where f: "financing_h h1 x = (fin, h2)"
    by (cases "financing_h h1 x")
  obtain comps h3 where c: "comps_h h2 x = (comps, h3)"
    by (cases "comps_h h2 x")
  from a nx u f c have "alloc h3 (d_h h x units' fin comps) = (d, h')"
    by (simp add: withDefaults_h_def)
  then have "d = HRef (length h3)" "h' = h3 @ [d_h h x units' fin comps]"
    by (auto simp: alloc_def)
  with nx u f c show ?thesis
    by (rule that)
qed

lemma withDefaults_h_unchanged:
  assumes a: "withDefaults_h h x = Inr (d, h')"
  shows "unchanged h h'"
proof -
  from a obtain units' h1 fin h2 comps h3 where
    u: "unitsOrDefault_h h (h_get h x ''units'') = (units', h1)"
    and f: "financing_h h1 x = (fin, h2)"
    and c: "comps_h h2 x = (comps, h3)"
    and h': "h' = h3 @ [d_h h x units' fin comps]"
    by (rule withDefaults_h_parts)
  have "unchanged h3 h'"
    by (auto simp: h' unchanged_iff)
  with unitsOrDefault_h_unchanged [OF u] financing_h_unchanged [OF f] comps_h_unchanged [OF c]
  show ?thesis
    by (blast intro: unchanged_trans)
qed

lemma h_get_new:
  "h_get (h @ [HObject kvs]) (HRef (length h)) k
     = (case map_of kvs k of None \<Rightarrow> HUndefined | Some v \<Rightarrow> v)"
  by (simp add: h_get_def)

lemma units_refine:
  assumes u: "unitsOrDefault_h h v = (units', h1)" and k: "unchanged h1 k"
    and v: "wf_val h v"
    and e: "case h_elems h v of Some us \<Rightarrow> list_all (wf_val h) us | None \<Rightarrow> True"
  shows "reifyUnits k units' = unitsOrDefault (reifyUnits h v)"
proof (cases "\<exists>us. h_elems h v = Some us \<and> length us \<noteq> 0")
  case True
  then obtain us where us: "h_elems h v = Some us" "length us \<noteq> 0"
    by blast
  with u have "units' = v" "h1 = h"
    by (simp_all add: unitsOrDefault_h_def)
  with k have "reifyUnits k units' = reifyUnits h v"
    using reifyUnits_unchanged [OF _ v e] by simp
  moreover have "unitsOrDefault (reifyUnits h v) = reifyUnits h v"
    using us by (simp add: reifyUnits_def unitsOrDefault_def)
  ultimately show ?thesis
    by simp
next
  case False
  with u have d: "defaultUnits_h h = (units', h1)"
    by (auto simp: unitsOrDefault_h_def split: option.splits if_splits)
  from False have t: "unitsOrDefault (reifyUnits h v) = defaultUnits"
    by (cases "h_elems h v")
       (auto simp: reifyUnits_def unitsOrDefault_def dest: shallow_not_Arr [THEN notE]
             split: jsval.splits)
  from d have units': "units' = HRef (Suc (length h))"
    and h1: "h1 = h @ [HObject [(''name'', HStr ''Unit A''), (''rent'', HNum (Fin 0))],
                       HArray [HRef (length h)]]"
    by (simp_all add: defaultUnits_h_eq)
  from k obtain new where kk: "k = h1 @ new"
    by (auto simp: unchanged_iff)
  have "reifyUnits k units' = defaultUnits"
    by (simp add: reifyUnits_def reifyUnit_def h_elems_def h_get_def units' kk h1 nth_append
        defaultUnits_def)
  with t show ?thesis
    by simp
qed

lemma optget_reifyFinancing:
  "k \<in> {''downPct'', ''rateAnnual'', ''termMonths''} \<Longrightarrow>
     js_optget (reifyFinancing h f) k = shallow (h_optget h f k)"
  by (auto simp: js_optget_def h_optget_def reifyFinancing_def shallow_nullish)

lemma financing_refine:
  assumes f: "financing_h h1 x = (fin, h2)" and h1: "unchanged h h1" and k: "unchanged h2 k"
    and x: "wf_val h x" and xf: "wf_val h (h_get h x ''financing'')"
  shows "reifyFinancing k fin = Obj [
      (''downPct'', js_nc (js_optget (reifyFinancing h (h_get h x ''financing'')) ''downPct'')
                      (Num (Fin 0.25))),
      (''rateAnnual'', js_nc (js_optget (reifyFinancing h (h_get h x ''financing'')) ''rateAnnual'')
                      (Num (Fin 0.077))),
      (''termMonths'', js_nc (js_optget (reifyFinancing h (h_get h x ''financing'')) ''termMonths'')
                      (Num (Fin 360)))]"
proof -
  have g: "h_get h1 x ''financing'' = h_get h x ''financing''"
    by (rule h_get_unchanged [OF h1 x])
  have o: "h_optget h1 (h_get h x ''financing'') key = h_optget h (h_get h x ''financing'') key" for key
    by (rule h_optget_unchanged [OF h1 xf])
  from f have fin: "fin = HRef (length h1)"
    and h2: "h2 = h1 @ [HObject [
       (''downPct'', h_nc (h_optget h (h_get h x ''financing'') ''downPct'') (HNum (Fin 0.25))),
       (''rateAnnual'', h_nc (h_optget h (h_get h x ''financing'') ''rateAnnual'') (HNum (Fin 0.077))),
       (''termMonths'', h_nc (h_optget h (h_get h x ''financing'') ''termMonths'') (HNum (Fin 360)))]]"
    by (simp_all add: financing_h_def alloc_def g o)
  have w: "wf_val h2 fin"
    by (simp add: wf_val_def fin h2)
  have e: "h_get k fin key = h_get h2 fin key" for key
    by (rule h_get_unchanged [OF k w])
  have v: "h_get k fin ''downPct''
             = h_nc (h_optget h (h_get h x ''financing'') ''downPct'') (HNum (Fin 0.25))"
    "h_get k fin ''rateAnnual''
             = h_nc (h_optget h (h_get h x ''financing'') ''rateAnnual'') (HNum (Fin 0.077))"
    "h_get k fin ''termMonths''
             = h_nc (h_optget h (h_get h x ''financing'') ''termMonths'') (HNum (Fin 360))"
    unfolding e by (simp_all add: fin h2 h_get_new)
  have r: "reifyFinancing k fin = Obj [
      (''downPct'', shallow (h_get k fin ''downPct'')),
      (''rateAnnual'', shallow (h_get k fin ''rateAnnual'')),
      (''termMonths'', shallow (h_get k fin ''termMonths''))]"
    by (simp add: reifyFinancing_def fin)
  show ?thesis
    unfolding r v by (simp add: shallow_nc optget_reifyFinancing)
qed

lemma withDefaults_refine:
  assumes w: "wf_input h x" and a: "withDefaults_h h x = Inr (d, h')"
  shows "bindE (withDefaults (reify h x)) readInputs = readInputs (reify h' d)"
proof -
  from w have x: "wf_val h x" and xu: "wf_val h (h_get h x ''units'')"
    and es: "case h_elems h (h_get h x ''units'') of Some us \<Rightarrow> list_all (wf_val h) us | None \<Rightarrow> True"
    and xf: "wf_val h (h_get h x ''financing'')"
    by (simp_all add: wf_input_def)
  from a obtain units' h1 fin h2 comps h3 where
    nx: "\<not> h_nullish x"
    and u: "unitsOrDefault_h h (h_get h x ''units'') = (units', h1)"
    and f: "financing_h h1 x = (fin, h2)"
    and c: "comps_h h2 x = (comps, h3)"
    and d: "d = HRef (length h3)"
    and h': "h' = h3 @ [d_h h x units' fin comps]"
    by (rule withDefaults_h_parts)
  have u1: "unchanged h h1"
    by (rule unitsOrDefault_h_unchanged [OF u])
  have u2: "unchanged h1 h2"
    by (rule financing_h_unchanged [OF f])
  have u3: "unchanged h2 h3"
    by (rule comps_h_unchanged [OF c])
  have u4: "unchanged h3 h'"
    by (auto simp: h' unchanged_iff)
  have units: "reifyUnits h' units' = unitsOrDefault (reifyUnits h (h_get h x ''units''))"
    by (rule units_refine [OF u _ xu es]) (blast intro: unchanged_trans u2 u3 u4)
  have fin: "reifyFinancing h' fin = Obj [
      (''downPct'', js_nc (js_optget (reifyFinancing h (h_get h x ''financing'')) ''downPct'')
                      (Num (Fin 0.25))),
      (''rateAnnual'', js_nc (js_optget (reifyFinancing h (h_get h x ''financing'')) ''rateAnnual'')
                      (Num (Fin 0.077))),
      (''termMonths'', js_nc (js_optget (reifyFinancing h (h_get h x ''financing'')) ''termMonths'')
                      (Num (Fin 360)))]"
    by (rule financing_refine [OF f u1 _ x xf]) (blast intro: unchanged_trans u3 u4)
  have nd: "\<not> h_nullish d"
    by (simp add: d)
  have gd: "h_get h' d key
      = (case map_of (case d_h h x units' fin comps of HObject kvs \<Rightarrow> kvs | HArray _ \<Rightarrow> []) key of
           None \<Rightarrow> HUndefined | Some v \<Rightarrow> v)" for key
    by (simp add: d h' d_h_def h_get_def)
  have lhs: "reify h' d = Obj [
        (''purchasePrice'', js_nc (shallow (h_get h x ''purchasePrice'')) (Num (Fin 0))),
        (''closingPct'', js_nc (shallow (h_get h x ''closingPct'')) (Num (Fin 0.03))),
        (''pointsOnLoanPctOfPrice'', js_nc (shallow (h_get h x ''pointsOnLoanPctOfPrice'')) (Num (Fin 0.0075))),
        (''vacancyRate'', js_nc (shallow (h_get h x ''vacancyRate'')) (Num (Fin 0.05))),
        (''maintPctOfGrossRent'', js_nc (shallow (h_get h x ''maintPctOfGrossRent'')) (Num (Fin 0.08))),
        (''mgmtPctOfEGI'', js_nc (shallow (h_get h x ''mgmtPctOfEGI'')) (Num (Fin 0.08))),
        (''insuranceAnnual'', js_nc (shallow (h_get h x ''insuranceAnnual'')) (Num (Fin 0))),
        (''taxesAnnual'', js_nc (shallow (h_get h x ''taxesAnnual'')) (Num (Fin 0))),
        (''otherAnnual'', js_nc (shallow (h_get h x ''otherAnnual'')) (Num (Fin 0))),
        (''hoaAnnual'', js_nc (shallow (h_get h x ''hoaAnnual'')) (Num (Fin 0))),
        (''utilsAnnualLL'', js_nc (shallow (h_get h x ''utilsAnnualLL'')) (Num (Fin 0))),
        (''units'', unitsOrDefault (reifyUnits h (h_get h x ''units''))),
        (''financing'', reifyFinancing h' fin)]"
    by (simp add: reify_def nd gd d_h_def shallow_nc units)
  have rhs: "withDefaults (reify h x) = Inr (Obj [
        (''address'', Str []),
        (''purchasePrice'', js_nc (shallow (h_get h x ''purchasePrice'')) (Num (Fin 0))),
        (''closingPct'', js_nc (shallow (h_get h x ''closingPct'')) (Num (Fin 0.03))),
        (''pointsOnLoanPctOfPrice'', js_nc (shallow (h_get h x ''pointsOnLoanPctOfPrice'')) (Num (Fin 0.0075))),
        (''vacancyRate'', js_nc (shallow (h_get h x ''vacancyRate'')) (Num (Fin 0.05))),
        (''maintPctOfGrossRent'', js_nc (shallow (h_get h x ''maintPctOfGrossRent'')) (Num (Fin 0.08))),
        (''mgmtPctOfEGI'', js_nc (shallow (h_get h x ''mgmtPctOfEGI'')) (Num (Fin 0.08))),
        (''insuranceAnnual'', js_nc (shallow (h_get h x ''insuranceAnnual'')) (Num (Fin 0))),
        (''taxesAnnual'', js_nc (shallow (h_get h x ''taxesAnnual'')) (Num (Fin 0))),
        (''otherAnnual'', js_nc (shallow (h_get h x ''otherAnnual'')) (Num (Fin 0))),
        (''hoaAnnual'', js_nc (shallow (h_get h x ''hoaAnnual'')) (Num (Fin 0))),
        (''utilsAnnualLL'', js_nc (shallow (h_get h x ''utilsAnnualLL'')) (Num (Fin 0))),
        (''units'', unitsOrDefault (reifyUnits h (h_get h x ''units''))),
        (''financing'', reifyFinancing h' fin),
        (''comps'', Arr [])])"
    by (simp add: withDefaults_def reify_def nx fin js_or_def js_nc_def [of Undefined])
  show ?thesis
    by (simp add: rhs lhs bindE_def readInputs_def)
qed

lemma Report_h_refines:
  assumes w: "wf_input h x"
  shows "map_sum id fst (Report_h h x) = Report_d (reify h x)"
proof (cases "withDefaults_h h x")
  case (Inl e)
  then have "h_nullish x" "e = TypeError"
    by (auto simp: withDefaults_h_def split: if_splits prod.splits)
  then show ?thesis
    using Inl by (simp add: Report_h_def Report_d_def bindE_def withDefaults_def reify_def
        shallow_nullish)
next
  case (Inr p)
  obtain d h' where p: "p = (d, h')"
    by (cases p)
  from Inr p have a: "withDefaults_h h x = Inr (d, h')"
    by simp
  then have nd: "\<not> h_nullish d"
    by (auto elim: withDefaults_h_parts)
  have "map_sum id fst (Report_h h x) = readInputs_h h' d"
    by (cases "readInputs_h h' d") (simp_all add: Report_h_def a bindE_def)
  also have "\<dots> = readInputs (reify h' d)"
    by (rule readInputs_reify [OF nd])
  also have "\<dots> = Report_d (reify h x)"
    by (simp add: Report_d_def withDefaults_refine [OF w a])
  finally show ?thesis .
qed

lemma Report_h_P4: "Report_h P4_heap (HRef 2) = Inr (P4_d, P4_heap')"
  by (simp add: Report_h_def withDefaults_h_def unitsOrDefault_h_def financing_h_def comps_h_def
      d_h_def alloc_def h_get_def h_optget_def h_elems_def h_nc_def h_or_def P4_heap_def
      P4_heap'_def readInputs_h_def readUnits_h_def readUnit_h_def readFinancing_h_def
      readNum_def readInt_def bindE_def P4_d_def nth_append)

lemma wf_input_P4: "wf_input P4_heap (HRef 2)"
  by (simp add: wf_input_def wf_val_def h_get_def h_elems_def P4_heap_def)

text \<open>
  C9. The calculator is pure and deterministic. A run changes no object of the store it
  starts in, so every field of the input is what it was; a second run on the same input,
  in the store the first run left, computes the same results; and the results are those
  of the calculator on the values read from the input, whatever the addresses.
\<close>

theorem calculator_pure:
  assumes w: "wf_input h x" and r: "Report_h h x = Inr (i, h')"
  shows "unchanged h h'
    \<and> (\<forall>k. h_get h' x k = h_get h x k)
    \<and> map_sum id (\<lambda>p. InvestmentResult (fst p)) (Report_h h' x) = Inr (InvestmentResult i)
    \<and> Report_d (reify h x) = Inr i"
proof -
  from r obtain d where a: "withDefaults_h h x = Inr (d, h')"
    by (cases "withDefaults_h h x")
       (auto simp: Report_h_def bindE_def split: sum.splits prod.splits)
  have u: "unchanged h h'"
    by (rule withDefaults_h_unchanged [OF a])
  from w have x: "wf_val h x"
    by (simp add: wf_input_def)
  have g: "\<forall>k. h_get h' x k = h_get h x k"
    using h_get_unchanged [OF u x] by simp
  have d: "Report_d (reify h x) = Inr i"
    using Report_h_refines [OF w] r by simp
  have "map_sum id fst (Report_h h' x) = Report_d (reify h' x)"
    by (rule Report_h_refines) (rule wf_input_unchanged(1) [OF u w])
  also have "\<dots> = Inr i"
    by (simp add: wf_input_unchanged(2) [OF u w] d)
  finally have "map_sum id (\<lambda>p. InvestmentResult (fst p)) (Report_h h' x) = Inr (InvestmentResult i)"
    by (cases "Report_h h' x") simp_all
  with u g d show ?thesis
    by blast
qed

theorem calculator_pure_witness:
  "wf_input P4_heap (HRef 2) \<and> Report_h P4_heap (HRef 2) = Inr (P4_d, P4_heap')
   \<and> unchanged P4_heap P4_heap'
   \<and> map_sum id (\<lambda>p. InvestmentResult (fst p)) (Report_h P4_heap' (HRef 2))
       = Inr (InvestmentResult P4_d)
   \<and> Report_d (reify P4_heap (HRef 2)) = Inr P4_d"
  using calculator_pure [OF wf_input_P4 Report_h_P4] wf_input_P4 Report_h_P4 by blast

end
